theory Spec2Isabelle
  imports Main
begin

section \<open>Keystone UUID token provider: data model\<close>

text \<open>
  A shallow embedding of \<^verbatim>\<open>keystone/token/providers/uuid.py\<close>: the helper class
  \<^verbatim>\<open>V3TokenDataHelper\<close> that assembles the token payload, and the class
  \<^verbatim>\<open>Provider\<close> that issues, stores, revokes and validates tokens.
  Python dictionaries with a fixed set of keys are records; a key that may be missing is
  an \<open>option\<close> field (\<open>None\<close>: the key is not in the dictionary). Exceptions are values
  of the type \<open>error\<close>, and a function that may raise returns \<open>error + 'a\<close>.
  A leading underscore of a Python name is dropped (\<^verbatim>\<open>_populate_roles\<close> is
  \<open>populate_roles\<close>).
\<close>

datatype error =
    TokenNotFound string
  | UserNotFound string
  | ProjectNotFound string
  | DomainNotFound string
  | RoleNotFound string
  | TrustNotFound string
  | Forbidden string
  | Unauthorized string
  | UnsupportedTokenVersionException
  | NotImplemented
  | Conflict string
  | AssertionError
  | KeyError string
  | TypeError string
  | ValueError string

text \<open>What the identity, trust and catalog back ends return.\<close>

record domain_ref =
  d_id :: string
  d_name :: string

record project_ref =
  p_id :: string
  p_name :: string
  p_domain_id :: string

record user_ref =
  u_id :: string
  u_name :: string
  u_domain_id :: string
  u_enabled :: bool

text \<open>A role as \<^verbatim>\<open>identity_api.get_role\<close> returns it: beside id and name it may carry
  further attributes, which the filtered projection \<^verbatim>\<open>{'id', 'name'}\<close> drops.\<close>

record role_ref =
  r_id :: string
  r_name :: string
  r_extra :: "(string \<times> string) list"

datatype trust_role = TrustRole (tr_id: string)

record trust_ref =
  t_id :: string
  t_trustor_user_id :: string
  t_trustee_user_id :: string
  t_impersonation :: bool
  t_project_id :: "string option"
  t_roles :: "trust_role list"

type_synonym catalog = "(string \<times> (string \<times> string) list) list"

type_synonym extras = "(string \<times> string) list"

text \<open>The projections stored in a token.\<close>

record filtered_domain =
  fd_id :: string
  fd_name :: string

record filtered_project =
  fp_id :: string
  fp_name :: string
  fp_domain :: filtered_domain

record filtered_user =
  fu_id :: string
  fu_name :: string
  fu_domain :: filtered_domain

record trust_block =
  tb_id :: string
  tb_trustor_user :: string
  tb_trustee_user :: string
  tb_impersonation :: bool

text \<open>The dictionary \<^verbatim>\<open>token_data\<close>. The keys \<^verbatim>\<open>methods\<close> and \<^verbatim>\<open>extras\<close> are always
  there (the value of \<^verbatim>\<open>extras\<close> may be Python's None); every other key may be missing.
  \<open>tok_trust\<close> is the key \<^verbatim>\<open>OS-TRUST:trust\<close>.\<close>

record token_data =
  tok_methods :: "string list"
  tok_extras :: "extras option"
  tok_domain :: "filtered_domain option"
  tok_project :: "filtered_project option"
  tok_user :: "filtered_user option"
  tok_roles :: "role_ref list option"
  tok_catalog :: "catalog option"
  tok_trust :: "trust_block option"
  tok_expires_at :: "string option"
  tok_issued_at :: "string option"

text \<open>The document around it: \<^verbatim>\<open>{'token': token_data}\<close> for a V3 token, a dictionary
  with the key \<^verbatim>\<open>access\<close> for a V2 token (its content is never read here).\<close>

record token_body =
  body_token :: "token_data option"
  body_access :: "extras option"

text \<open>An expiry handed to the helper is a string or a datetime (a point in time).\<close>

datatype expires = ExpString string | ExpTime nat

record metadata =
  md_roles :: "string list option"
  md_trust_id :: "string option"
  md_trustee_user_id :: "string option"

text \<open>The record handed to the token store (\<^verbatim>\<open>data = dict(key=..., id=..., ...)\<close>).\<close>

record token_ref =
  ref_key :: string
  ref_id :: string
  ref_expires :: nat
  ref_user :: filtered_user
  ref_tenant :: "filtered_project option"
  ref_metadata :: metadata
  ref_token_data :: "token_body option"
  ref_trust_id :: "string option"

text \<open>The collaborators and the configuration the module reads: \<^verbatim>\<open>CONF.trust.enabled\<close>,
  \<^verbatim>\<open>identity_api\<close>, \<^verbatim>\<open>catalog_api\<close>, \<^verbatim>\<open>trust_api\<close>, \<^verbatim>\<open>timeutils\<close>,
  \<^verbatim>\<open>token.default_expire_time\<close> and the constant \<^verbatim>\<open>token_provider.V3\<close>. None of them is
  defined in this module, so they are parameters. \<open>parse_isotime\<close> stands for
  \<^verbatim>\<open>timeutils.normalize_time(timeutils.parse_isotime(s))\<close>, \<open>isotime\<close> for
  \<^verbatim>\<open>timeutils.isotime(t, subsecond=True)\<close> and \<open>utcnow\<close> for the clock that
  \<^verbatim>\<open>timeutils.isotime(subsecond=True)\<close> reads.\<close>

record env =
  trust_enabled :: bool
  get_domain :: "string \<Rightarrow> error + domain_ref"
  get_project :: "string \<Rightarrow> error + project_ref"
  get_user :: "string \<Rightarrow> error + user_ref"
  get_role :: "string \<Rightarrow> error + role_ref"
  get_roles_for_user_and_domain :: "string \<Rightarrow> string \<Rightarrow> error + string list"
  get_roles_for_user_and_project :: "string \<Rightarrow> string \<Rightarrow> error + string list"
  get_v3_catalog :: "string \<Rightarrow> string option \<Rightarrow> error + catalog"
  get_trust :: "string \<Rightarrow> error + trust_ref"
  default_expire_time :: nat
  isotime :: "nat \<Rightarrow> string"
  utcnow :: nat
  parse_isotime :: "string \<Rightarrow> error + nat"
  V3 :: string

text \<open>The token store (\<^verbatim>\<open>token_api\<close>) over a state \<open>'s\<close>. A create or a delete
  returns the state it leaves, also when it fails.\<close>

record 's token_api =
  create_token :: "string \<Rightarrow> token_ref \<Rightarrow> 's \<Rightarrow> (error + unit) \<times> 's"
  get_token :: "string \<Rightarrow> 's \<Rightarrow> error + token_ref"
  delete_token :: "string \<Rightarrow> 's \<Rightarrow> (error + unit) \<times> 's"

section \<open>V3TokenDataHelper\<close>

text \<open>Python's truth value of an optional id: None and the empty string are false.\<close>

definition truthy :: "string option \<Rightarrow> bool" where
  "truthy x = (case x of None \<Rightarrow> False | Some s \<Rightarrow> s \<noteq> [])"

text \<open>\<^verbatim>\<open>CONF.trust.enabled and trust\<close>.\<close>

definition trust_active :: "env \<Rightarrow> trust_ref option \<Rightarrow> bool" where
  "trust_active env trust = (trust_enabled env \<and> trust \<noteq> None)"

definition get_filtered_domain :: "env \<Rightarrow> string \<Rightarrow> error + filtered_domain" where
  "get_filtered_domain env domain_id =
     (case get_domain env domain_id of
        Inl e \<Rightarrow> Inl e
      | Inr domain_ref \<Rightarrow> Inr \<lparr>fd_id = d_id domain_ref, fd_name = d_name domain_ref\<rparr>)"

definition get_filtered_project :: "env \<Rightarrow> string \<Rightarrow> error + filtered_project" where
  "get_filtered_project env project_id =
     (case get_project env project_id of
        Inl e \<Rightarrow> Inl e
      | Inr project_ref \<Rightarrow>
          (case get_filtered_domain env (p_domain_id project_ref) of
             Inl e \<Rightarrow> Inl e
           | Inr d \<Rightarrow>
               Inr \<lparr>fp_id = p_id project_ref, fp_name = p_name project_ref, fp_domain = d\<rparr>))"

definition populate_scope ::
  "env \<Rightarrow> token_data \<Rightarrow> string option \<Rightarrow> string option \<Rightarrow> error + token_data" where
  "populate_scope env token_data domain_id project_id =
     (if tok_domain token_data \<noteq> None \<or> tok_project token_data \<noteq> None then Inr token_data
      else
        (case (if truthy domain_id
               then (case get_filtered_domain env (the domain_id) of
                       Inl e \<Rightarrow> Inl e
                     | Inr d \<Rightarrow> Inr (token_data\<lparr>tok_domain := Some d\<rparr>))
               else Inr token_data) of
           Inl e \<Rightarrow> Inl e
         | Inr token_data1 \<Rightarrow>
             (if truthy project_id
              then (case get_filtered_project env (the project_id) of
                      Inl e \<Rightarrow> Inl e
                    | Inr p \<Rightarrow> Inr (token_data1\<lparr>tok_project := Some p\<rparr>))
              else Inr token_data1)))"

text \<open>The list comprehension \<^verbatim>\<open>[get_role(role_id) for role_id in roles]\<close>: it stops at
  the first lookup that raises.\<close>

fun get_role_refs :: "env \<Rightarrow> string list \<Rightarrow> error + role_ref list" where
  "get_role_refs env [] = Inr []"
| "get_role_refs env (role_id # role_ids) =
     (case get_role env role_id of
        Inl e \<Rightarrow> Inl e
      | Inr r \<Rightarrow>
          (case get_role_refs env role_ids of
             Inl e \<Rightarrow> Inl e
           | Inr rs \<Rightarrow> Inr (r # rs)))"

definition get_roles_for_user ::
  "env \<Rightarrow> string \<Rightarrow> string option \<Rightarrow> string option \<Rightarrow> error + role_ref list" where
  "get_roles_for_user env user_id domain_id project_id =
     (case (if truthy domain_id
            then get_roles_for_user_and_domain env user_id (the domain_id)
            else Inr []) of
        Inl e \<Rightarrow> Inl e
      | Inr roles_d \<Rightarrow>
          (case (if truthy project_id
                 then get_roles_for_user_and_project env user_id (the project_id)
                 else Inr roles_d) of
             Inl e \<Rightarrow> Inl e
           | Inr role_ids \<Rightarrow> get_role_refs env role_ids))"

definition populate_user ::
  "env \<Rightarrow> token_data \<Rightarrow> string \<Rightarrow> string option \<Rightarrow> string option \<Rightarrow> trust_ref option
     \<Rightarrow> error + token_data" where
  "populate_user env token_data user_id domain_id project_id trust =
     (if tok_user token_data \<noteq> None then Inr token_data
      else
        (case get_user env user_id of
           Inl e \<Rightarrow> Inl e
         | Inr user_ref \<Rightarrow>
             (case (if trust_active env trust \<and> tok_trust token_data = None
                    then (case get_user env (t_trustor_user_id (the trust)) of
                            Inl e \<Rightarrow> Inl e
                          | Inr trustor_user_ref \<Rightarrow>
                              (if \<not> u_enabled trustor_user_ref
                               then Inl (Forbidden ''Trustor is disabled.'')
                               else Inr
                                 (if t_impersonation (the trust)
                                  then trustor_user_ref else user_ref,
                                  token_data\<lparr>tok_trust := Some
                                    \<lparr>tb_id = t_id (the trust),
                                     tb_trustor_user = t_trustor_user_id (the trust),
                                     tb_trustee_user = t_trustee_user_id (the trust),
                                     tb_impersonation = t_impersonation (the trust)\<rparr>\<rparr>)))
                    else Inr (user_ref, token_data)) of
                Inl e \<Rightarrow> Inl e
              | Inr (shown_user_ref, token_data1) \<Rightarrow>
                  (case get_filtered_domain env (u_domain_id shown_user_ref) of
                     Inl e \<Rightarrow> Inl e
                   | Inr d \<Rightarrow>
                       Inr (token_data1\<lparr>tok_user := Some
                              \<lparr>fu_id = u_id shown_user_ref,
                               fu_name = u_name shown_user_ref,
                               fu_domain = d\<rparr>\<rparr>)))))"

text \<open>The loop over \<^verbatim>\<open>trust['roles']\<close>: it appends the first role of the trustor with the
  id of the delegated role, and raises when there is none.\<close>

fun match_trust_roles ::
  "role_ref list \<Rightarrow> trust_role list \<Rightarrow> role_ref list \<Rightarrow> error + role_ref list" where
  "match_trust_roles roles [] filtered_roles = Inr filtered_roles"
| "match_trust_roles roles (trust_role # rest) filtered_roles =
     (case filter (\<lambda>x. r_id x = tr_id trust_role) roles of
        [] \<Rightarrow> Inl (Forbidden ''Trustee have no delegated roles.'')
      | m # _ \<Rightarrow> match_trust_roles roles rest (filtered_roles @ [m]))"

text \<open>The loop of the other branch: every role reduced to id and name.\<close>

definition filter_role :: "role_ref \<Rightarrow> role_ref" where
  "filter_role role = \<lparr>r_id = r_id role, r_name = r_name role, r_extra = []\<rparr>"

definition no_access_msg :: "string \<Rightarrow> string option \<Rightarrow> string option \<Rightarrow> string" where
  "no_access_msg user_id token_domain_id token_project_id =
     (if truthy token_project_id
      then ''User '' @ user_id @ '' have no access to project '' @ the token_project_id
      else ''User '' @ user_id @ '' have no access to domain ''
             @ (case token_domain_id of None \<Rightarrow> ''None'' | Some d \<Rightarrow> d))"

text \<open>The local variables \<^verbatim>\<open>token_user_id\<close>, \<^verbatim>\<open>token_project_id\<close> and
  \<^verbatim>\<open>token_domain_id\<close> of \<^verbatim>\<open>_populate_roles\<close> (lines 112 to 120).\<close>

definition token_user_id :: "env \<Rightarrow> string \<Rightarrow> trust_ref option \<Rightarrow> string" where
  "token_user_id env user_id trust =
     (if trust_active env trust then t_trustor_user_id (the trust) else user_id)"

definition token_project_id :: "env \<Rightarrow> string option \<Rightarrow> trust_ref option \<Rightarrow> string option" where
  "token_project_id env project_id trust =
     (if trust_active env trust then t_project_id (the trust) else project_id)"

definition token_domain_id :: "env \<Rightarrow> string option \<Rightarrow> trust_ref option \<Rightarrow> string option" where
  "token_domain_id env domain_id trust =
     (if trust_active env trust then None else domain_id)"

text \<open>The list \<^verbatim>\<open>filtered_roles\<close> that the two loops build (lines 126 to 139).\<close>

definition filter_roles :: "env \<Rightarrow> role_ref list \<Rightarrow> trust_ref option \<Rightarrow> error + role_ref list" where
  "filter_roles env roles trust =
     (if trust_active env trust
      then match_trust_roles roles (t_roles (the trust)) []
      else Inr (map filter_role roles))"

definition populate_roles ::
  "env \<Rightarrow> token_data \<Rightarrow> string \<Rightarrow> string option \<Rightarrow> string option \<Rightarrow> trust_ref option
     \<Rightarrow> error + token_data" where
  "populate_roles env token_data user_id domain_id project_id trust =
     (if tok_roles token_data \<noteq> None then Inr token_data
      else if truthy (token_domain_id env domain_id trust)
              \<or> truthy (token_project_id env project_id trust)
      then
        (case get_roles_for_user env (token_user_id env user_id trust)
                (token_domain_id env domain_id trust)
                (token_project_id env project_id trust) of
           Inl e \<Rightarrow> Inl e
         | Inr roles \<Rightarrow>
             (case filter_roles env roles trust of
                Inl e \<Rightarrow> Inl e
              | Inr filtered_roles \<Rightarrow>
                  (if filtered_roles = []
                   then Inl (Unauthorized
                          (no_access_msg user_id (token_domain_id env domain_id trust)
                             (token_project_id env project_id trust)))
                   else Inr (token_data\<lparr>tok_roles := Some filtered_roles\<rparr>))))
      else Inr token_data)"

definition populate_service_catalog ::
  "env \<Rightarrow> token_data \<Rightarrow> string \<Rightarrow> string option \<Rightarrow> string option \<Rightarrow> trust_ref option
     \<Rightarrow> error + token_data" where
  "populate_service_catalog env token_data user_id domain_id project_id trust =
     (if tok_catalog token_data \<noteq> None then Inr token_data
      else
        (let catalog_user_id =
               (if trust_active env trust then t_trustor_user_id (the trust) else user_id)
         in if truthy project_id \<or> truthy domain_id
            then
              (case get_v3_catalog env catalog_user_id project_id of
                 Inl e \<Rightarrow>
                   (if e = NotImplemented
                    then Inr (token_data\<lparr>tok_catalog := Some []\<rparr>)
                    else Inl e)
               | Inr service_catalog \<Rightarrow>
                   Inr (token_data\<lparr>tok_catalog := Some service_catalog\<rparr>))
            else Inr token_data))"

text \<open>\<^verbatim>\<open>not expires\<close>: None and the empty string are false, a datetime is true.\<close>

definition expires_given :: "expires option \<Rightarrow> bool" where
  "expires_given x =
     (case x of None \<Rightarrow> False | Some (ExpString s) \<Rightarrow> s \<noteq> [] | Some (ExpTime t) \<Rightarrow> True)"

definition populate_token_dates :: "env \<Rightarrow> token_data \<Rightarrow> expires option \<Rightarrow> token_data" where
  "populate_token_dates env token_data expires =
     (let expires1 =
            (if \<not> expires_given expires then ExpTime (default_expire_time env)
             else the expires);
          expires2 = (case expires1 of ExpString s \<Rightarrow> s | ExpTime t \<Rightarrow> isotime env t)
      in token_data\<lparr>tok_expires_at := Some expires2,
                     tok_issued_at := Some (isotime env (utcnow env))\<rparr>)"

text \<open>The dictionary \<^verbatim>\<open>{'methods': method_names, 'extras': extras}\<close> with the five keys
  copied from a prior token, when there is one.\<close>

definition initial_token_data ::
  "string list \<Rightarrow> extras option \<Rightarrow> token_data option \<Rightarrow> token_data" where
  "initial_token_data method_names extras token =
     \<lparr>tok_methods = method_names,
      tok_extras = extras,
      tok_domain = (case token of None \<Rightarrow> None | Some t \<Rightarrow> tok_domain t),
      tok_project = (case token of None \<Rightarrow> None | Some t \<Rightarrow> tok_project t),
      tok_user = (case token of None \<Rightarrow> None | Some t \<Rightarrow> tok_user t),
      tok_roles = (case token of None \<Rightarrow> None | Some t \<Rightarrow> tok_roles t),
      tok_catalog = (case token of None \<Rightarrow> None | Some t \<Rightarrow> tok_catalog t),
      tok_trust = None,
      tok_expires_at = None,
      tok_issued_at = None\<rparr>"

definition get_token_data ::
  "env \<Rightarrow> string \<Rightarrow> string list \<Rightarrow> extras option \<Rightarrow> string option \<Rightarrow> string option
     \<Rightarrow> expires option \<Rightarrow> trust_ref option \<Rightarrow> token_data option \<Rightarrow> error + token_body" where
  "get_token_data env user_id method_names extras domain_id project_id expires trust token =
     (let token_data = initial_token_data method_names extras token
      in if trust_active env trust \<and> user_id \<noteq> t_trustee_user_id (the trust)
         then Inl (Forbidden ''User is not a trustee.'')
         else
           (case populate_scope env token_data domain_id project_id of
              Inl e \<Rightarrow> Inl e
            | Inr td1 \<Rightarrow>
           (case populate_user env td1 user_id domain_id project_id trust of
              Inl e \<Rightarrow> Inl e
            | Inr td2 \<Rightarrow>
           (case populate_roles env td2 user_id domain_id project_id trust of
              Inl e \<Rightarrow> Inl e
            | Inr td3 \<Rightarrow>
           (case populate_service_catalog env td3 user_id domain_id project_id trust of
              Inl e \<Rightarrow> Inl e
            | Inr td4 \<Rightarrow>
                Inr \<lparr>body_token = Some (populate_token_dates env td4 expires),
                     body_access = None\<rparr>)))))"

section \<open>Provider\<close>

record auth_context =
  ac_extras :: "extras option"

text \<open>The keyword arguments of \<^verbatim>\<open>_issue_v3_token\<close>. A keyword that is not passed is
  \<open>None\<close> (\<^verbatim>\<open>kwargs.get\<close>).\<close>

record issue_kwargs =
  kw_user_id :: string
  kw_method_names :: "string list"
  kw_expires_at :: "expires option"
  kw_project_id :: "string option"
  kw_domain_id :: "string option"
  kw_auth_context :: "auth_context option"
  kw_trust :: "trust_ref option"
  kw_metadata_ref :: "metadata option"

definition is_TokenNotFound :: "error \<Rightarrow> bool" where
  "is_TokenNotFound e = (case e of TokenNotFound _ \<Rightarrow> True | _ \<Rightarrow> False)"

text \<open>The trust of an issuance: the keyword \<^verbatim>\<open>trust\<close>, or the trust that
  \<^verbatim>\<open>metadata_ref['trust_id']\<close> names (lines 239 to 241).\<close>

definition issue_trust :: "env \<Rightarrow> issue_kwargs \<Rightarrow> error + trust_ref option" where
  "issue_trust env kwargs =
     (if trust_enabled env \<and> kw_trust kwargs = None \<and> kw_metadata_ref kwargs \<noteq> None
          \<and> md_trust_id (the (kw_metadata_ref kwargs)) \<noteq> None
      then (case get_trust env (the (md_trust_id (the (kw_metadata_ref kwargs)))) of
              Inl e \<Rightarrow> Inl e
            | Inr t \<Rightarrow> Inr (Some t))
      else Inr (kw_trust kwargs))"

text \<open>\<^verbatim>\<open>metadata_ref.setdefault(k, v)\<close> on the two trust keys.\<close>

definition setdefault_trust :: "metadata \<Rightarrow> trust_ref \<Rightarrow> metadata" where
  "setdefault_trust metadata_ref trust =
     metadata_ref
       \<lparr>md_trust_id :=
          (case md_trust_id metadata_ref of None \<Rightarrow> Some (t_id trust) | Some x \<Rightarrow> Some x),
        md_trustee_user_id :=
          (case md_trustee_user_id metadata_ref of
             None \<Rightarrow> Some (t_trustee_user_id trust) | Some x \<Rightarrow> Some x)\<rparr>"

text \<open>The body of the \<^verbatim>\<open>try\<close> block of \<^verbatim>\<open>_issue_v3_token\<close> up to the record \<^verbatim>\<open>data\<close>
  (lines 253 to 276). Reading a key that is missing raises KeyError.
  \<^verbatim>\<open>kwargs.get('metadata_ref', {})\<close> is the empty dictionary when the keyword was not
  passed.\<close>

definition token_record ::
  "env \<Rightarrow> string \<Rightarrow> issue_kwargs \<Rightarrow> trust_ref option \<Rightarrow> token_body \<Rightarrow> error + token_ref" where
  "token_record env token_id kwargs trust token_data =
     (case body_token token_data of
        None \<Rightarrow> Inl (KeyError ''token'')
      | Some tok \<Rightarrow>
     (case tok_expires_at tok of
        None \<Rightarrow> Inl (KeyError ''expires_at'')
      | Some expiry_str \<Rightarrow>
     (case parse_isotime env expiry_str of
        Inl e \<Rightarrow> Inl e
      | Inr expiry \<Rightarrow>
     (case (if tok_project tok \<noteq> None
            then (case tok_roles tok of
                    None \<Rightarrow> Inl (KeyError ''roles'')
                  | Some rs \<Rightarrow>
                      Inr \<lparr>md_roles = Some (map r_id rs), md_trust_id = None,
                           md_trustee_user_id = None\<rparr>)
            else Inr (case kw_metadata_ref kwargs of
                        None \<Rightarrow> \<lparr>md_roles = None, md_trust_id = None,
                                 md_trustee_user_id = None\<rparr>
                      | Some m \<Rightarrow> m)) of
        Inl e \<Rightarrow> Inl e
      | Inr metadata_ref1 \<Rightarrow>
     (let metadata_ref2 =
            (case trust of None \<Rightarrow> metadata_ref1 | Some t \<Rightarrow> setdefault_trust metadata_ref1 t)
      in case tok_user tok of
           None \<Rightarrow> Inl (KeyError ''user'')
         | Some user \<Rightarrow>
             Inr \<lparr>ref_key = token_id,
                  ref_id = token_id,
                  ref_expires = expiry,
                  ref_user = user,
                  ref_tenant = tok_project tok,
                  ref_metadata = metadata_ref2,
                  ref_token_data = Some token_data,
                  ref_trust_id = (case trust of None \<Rightarrow> None | Some t \<Rightarrow> Some (t_id t))\<rparr>)))))"

text \<open>The whole \<^verbatim>\<open>try\<close> block: the record, then \<^verbatim>\<open>token_api.create_token\<close>.\<close>

definition store_token_record ::
  "env \<Rightarrow> 's token_api \<Rightarrow> string \<Rightarrow> issue_kwargs \<Rightarrow> trust_ref option \<Rightarrow> token_body \<Rightarrow> 's
     \<Rightarrow> (error + unit) \<times> 's" where
  "store_token_record env api token_id kwargs trust token_data s =
     (case token_record env token_id kwargs trust token_data of
        Inl e \<Rightarrow> (Inl e, s)
      | Inr data \<Rightarrow> create_token api token_id data s)"

text \<open>The call of \<^verbatim>\<open>get_token_data\<close> in \<^verbatim>\<open>_issue_v3_token\<close> (lines 242 to 249): the
  extras come from the auth context, and no prior token is passed.\<close>

definition issue_token_data :: "env \<Rightarrow> issue_kwargs \<Rightarrow> trust_ref option \<Rightarrow> error + token_body" where
  "issue_token_data env kwargs trust =
     get_token_data env (kw_user_id kwargs) (kw_method_names kwargs)
       (case kw_auth_context kwargs of None \<Rightarrow> None | Some a \<Rightarrow> ac_extras a)
       (kw_domain_id kwargs) (kw_project_id kwargs) (kw_expires_at kwargs)
       trust None"

text \<open>\<^verbatim>\<open>_issue_v3_token\<close>. \<open>token_id\<close> is the value \<^verbatim>\<open>uuid.uuid4().hex\<close> draws. The result is
  the returned pair or the exception raised, with the state of the token store.\<close>

definition issue_v3_token ::
  "env \<Rightarrow> 's token_api \<Rightarrow> string \<Rightarrow> issue_kwargs \<Rightarrow> 's
     \<Rightarrow> (error + string \<times> token_body) \<times> 's" where
  "issue_v3_token env api token_id kwargs s =
     (case issue_trust env kwargs of
        Inl e \<Rightarrow> (Inl e, s)
      | Inr trust \<Rightarrow>
          (case issue_token_data env kwargs trust of
             Inl e \<Rightarrow> (Inl e, s)
           | Inr token_data \<Rightarrow>
               (case store_token_record env api token_id kwargs trust token_data s of
                  (Inr u, s1) \<Rightarrow> (Inr (token_id, token_data), s1)
                | (Inl exc, s1) \<Rightarrow>
                    (case get_token api token_id s1 of
                       Inr found \<Rightarrow> (Inr (token_id, token_data), s1)
                     | Inl e2 \<Rightarrow>
                         (if is_TokenNotFound e2 then (Inl exc, s1) else (Inl e2, s1))))))"

definition issue_token ::
  "env \<Rightarrow> 's token_api \<Rightarrow> string \<Rightarrow> string \<Rightarrow> issue_kwargs \<Rightarrow> 's
     \<Rightarrow> (error + string \<times> token_body) \<times> 's" where
  "issue_token env api token_id version kwargs s =
     (if version = V3 env then issue_v3_token env api token_id kwargs s
      else (Inl UnsupportedTokenVersionException, s))"

text \<open>\<^verbatim>\<open>_verify_token\<close>. A record the store returns is a dictionary with keys, so
  \<^verbatim>\<open>assert token_ref\<close> holds; \<^verbatim>\<open>token_ref['tenant']['id']\<close> on a record without tenant
  raises TypeError.\<close>

definition verify_token ::
  "'s token_api \<Rightarrow> string \<Rightarrow> string option \<Rightarrow> 's \<Rightarrow> error + token_ref" where
  "verify_token api token_id belongs_to s =
     (case get_token api token_id s of
        Inl e \<Rightarrow> Inl e
      | Inr token_ref \<Rightarrow>
          (if truthy belongs_to
           then (case ref_tenant token_ref of
                   None \<Rightarrow> Inl (TypeError ''tenant'')
                 | Some tenant \<Rightarrow>
                     (if fp_id tenant = the belongs_to then Inr token_ref
                      else Inl AssertionError))
           else Inr token_ref))"

definition revoke_token :: "'s token_api \<Rightarrow> string \<Rightarrow> 's \<Rightarrow> (error + unit) \<times> 's" where
  "revoke_token api token_id s = delete_token api token_id s"

text \<open>\<^verbatim>\<open>not token_data or 'token' not in token_data\<close>.\<close>

definition has_v3_payload :: "token_body option \<Rightarrow> bool" where
  "has_v3_payload token_data =
     (case token_data of None \<Rightarrow> False | Some b \<Rightarrow> body_token b \<noteq> None)"

definition validate_v3_token :: "env \<Rightarrow> 's token_api \<Rightarrow> string \<Rightarrow> 's \<Rightarrow> error + token_body" where
  "validate_v3_token env api token_id s =
     (case verify_token api token_id None s of
        Inl e \<Rightarrow> Inl e
      | Inr token_ref \<Rightarrow>
          (if \<not> has_v3_payload (ref_token_data token_ref)
           then
             (let project_id =
                    (case ref_tenant token_ref of None \<Rightarrow> None | Some p \<Rightarrow> Some (fp_id p))
              in get_token_data env (fu_id (ref_user token_ref)) [''password'', ''token'']
                   (Some []) None project_id (Some (ExpTime (ref_expires token_ref)))
                   None None)
           else Inr (the (ref_token_data token_ref))))"

text \<open>\<^verbatim>\<open>except exception.TokenNotFound as e: raise exception.Unauthorized(e)\<close>.\<close>

definition wrap_not_found :: "error + 'a \<Rightarrow> error + 'a" where
  "wrap_not_found r =
     (case r of
        Inl e \<Rightarrow> (case e of TokenNotFound m \<Rightarrow> Inl (Unauthorized m) | _ \<Rightarrow> Inl e)
      | Inr x \<Rightarrow> Inr x)"

definition validate_token ::
  "env \<Rightarrow> 's token_api \<Rightarrow> string \<Rightarrow> string option \<Rightarrow> string \<Rightarrow> 's \<Rightarrow> error + token_body" where
  "validate_token env api token_id belongs_to version s =
     wrap_not_found
       (if version = V3 env then validate_v3_token env api token_id s
        else Inl UnsupportedTokenVersionException)"

definition check_token ::
  "env \<Rightarrow> 's token_api \<Rightarrow> string \<Rightarrow> string option \<Rightarrow> string \<Rightarrow> 's \<Rightarrow> error + unit" where
  "check_token env api token_id belongs_to version s =
     wrap_not_found
       (if version = V3 env
        then (case verify_token api token_id None s of Inl e \<Rightarrow> Inl e | Inr r \<Rightarrow> Inr ())
        else Inl UnsupportedTokenVersionException)"

section \<open>A token store\<close>

text \<open>Modelled from the spec: the Token Store, whose code is not part of this module.
  The spec gives it as a durable key to record persistence with \<open>create(id, record)\<close>,
  \<open>get(id)\<close> that fails with not-found, and \<open>delete(id)\<close> whose not-found propagates,
  atomic per key. A create on a key that holds a record is the storage write conflict
  of the spec's error taxonomy.\<close>

type_synonym kvs = "(string \<times> token_ref) list"

text \<open>Modelled from the spec: \<open>create(id, record)\<close> of the Token Store; a record
  already held under the id is a storage write conflict.\<close>

definition kvs_create :: "string \<Rightarrow> token_ref \<Rightarrow> kvs \<Rightarrow> (error + unit) \<times> kvs" where
  "kvs_create token_id data s =
     (case map_of s token_id of
        Some r \<Rightarrow> (Inl (Conflict token_id), s)
      | None \<Rightarrow> (Inr (), (token_id, data) # s))"

text \<open>Modelled from the spec: \<open>get(id)\<close> of the Token Store, which fails with
  not-found when no record is held under the id.\<close>

definition kvs_get :: "string \<Rightarrow> kvs \<Rightarrow> error + token_ref" where
  "kvs_get token_id s =
     (case map_of s token_id of None \<Rightarrow> Inl (TokenNotFound token_id) | Some r \<Rightarrow> Inr r)"

text \<open>Modelled from the spec: \<open>delete(id)\<close> of the Token Store; its not-found
  propagates.\<close>

definition kvs_delete :: "string \<Rightarrow> kvs \<Rightarrow> (error + unit) \<times> kvs" where
  "kvs_delete token_id s =
     (case map_of s token_id of
        None \<Rightarrow> (Inl (TokenNotFound token_id), s)
      | Some r \<Rightarrow> (Inr (), filter (\<lambda>kv. fst kv \<noteq> token_id) s))"

definition kvs_api :: "kvs token_api" where
  "kvs_api = \<lparr>create_token = kvs_create, get_token = kvs_get, delete_token = kvs_delete\<rparr>"

section \<open>A small deployment\<close>

text \<open>A concrete identity directory, catalog and trust store, on which the functions
  above are evaluated: the users alice, bob (no role anywhere) and carol (disabled), the
  domain default, the project p1 on which alice holds the roles admin and member, and
  three trusts of alice to bob on p1.\<close>

definition demo_get_domain :: "string \<Rightarrow> error + domain_ref" where
  "demo_get_domain i =
     (if i = ''default'' then Inr \<lparr>d_id = ''default'', d_name = ''Default''\<rparr>
      else Inl (DomainNotFound i))"

definition demo_get_project :: "string \<Rightarrow> error + project_ref" where
  "demo_get_project i =
     (if i = ''p1'' then Inr \<lparr>p_id = ''p1'', p_name = ''One'', p_domain_id = ''default''\<rparr>
      else Inl (ProjectNotFound i))"

definition demo_get_user :: "string \<Rightarrow> error + user_ref" where
  "demo_get_user i =
     (if i = ''alice''
      then Inr \<lparr>u_id = ''alice'', u_name = ''Alice'', u_domain_id = ''default'',
                u_enabled = True\<rparr>
      else if i = ''bob''
      then Inr \<lparr>u_id = ''bob'', u_name = ''Bob'', u_domain_id = ''default'',
                u_enabled = True\<rparr>
      else if i = ''carol''
      then Inr \<lparr>u_id = ''carol'', u_name = ''Carol'', u_domain_id = ''default'',
                u_enabled = False\<rparr>
      else Inl (UserNotFound i))"

definition demo_get_role :: "string \<Rightarrow> error + role_ref" where
  "demo_get_role i =
     (if i = ''admin''
      then Inr \<lparr>r_id = ''admin'', r_name = ''Admin'', r_extra = [(''description'', ''all'')]\<rparr>
      else if i = ''member''
      then Inr \<lparr>r_id = ''member'', r_name = ''Member'', r_extra = []\<rparr>
      else Inl (RoleNotFound i))"

definition demo_env :: env where
  "demo_env =
     \<lparr>trust_enabled = True,
      get_domain = demo_get_domain,
      get_project = demo_get_project,
      get_user = demo_get_user,
      get_role = demo_get_role,
      get_roles_for_user_and_domain = (\<lambda>u d. Inr []),
      get_roles_for_user_and_project =
        (\<lambda>u p. if u = ''alice'' \<and> p = ''p1'' then Inr [''admin'', ''member''] else Inr []),
      get_v3_catalog = (\<lambda>u p. Inr [(''RegionOne'', [(''identity'', ''http://localhost:5000'')])]),
      get_trust = (\<lambda>i. Inl (TrustNotFound i)),
      default_expire_time = 86400,
      isotime = (\<lambda>t. if t = 0 then ''1970-01-01T00:00:00.000000Z''
                      else ''1970-01-02T00:00:00.000000Z''),
      utcnow = 0,
      parse_isotime = (\<lambda>x. if x = ''1970-01-01T00:00:00.000000Z'' then Inr 0
                            else if x = ''1970-01-02T00:00:00.000000Z'' then Inr 86400
                            else Inl (ValueError x)),
      V3 = ''v3.0''\<rparr>"

definition demo_kwargs :: issue_kwargs where
  "demo_kwargs =
     \<lparr>kw_user_id = ''alice'', kw_method_names = [''password''], kw_expires_at = None,
      kw_project_id = Some ''p1'', kw_domain_id = None, kw_auth_context = None,
      kw_trust = None, kw_metadata_ref = None\<rparr>"

text \<open>The payload and the record of that issuance.\<close>

definition demo_payload :: token_data where
  "demo_payload =
     \<lparr>tok_methods = [''password''], tok_extras = None, tok_domain = None,
      tok_project = Some \<lparr>fp_id = ''p1'', fp_name = ''One'',
                          fp_domain = \<lparr>fd_id = ''default'', fd_name = ''Default''\<rparr>\<rparr>,
      tok_user = Some \<lparr>fu_id = ''alice'', fu_name = ''Alice'',
                       fu_domain = \<lparr>fd_id = ''default'', fd_name = ''Default''\<rparr>\<rparr>,
      tok_roles = Some [\<lparr>r_id = ''admin'', r_name = ''Admin'', r_extra = []\<rparr>,
                        \<lparr>r_id = ''member'', r_name = ''Member'', r_extra = []\<rparr>],
      tok_catalog = Some [(''RegionOne'', [(''identity'', ''http://localhost:5000'')])],
      tok_trust = None,
      tok_expires_at = Some ''1970-01-02T00:00:00.000000Z'',
      tok_issued_at = Some ''1970-01-01T00:00:00.000000Z''\<rparr>"

definition demo_body :: token_body where
  "demo_body = \<lparr>body_token = Some demo_payload, body_access = None\<rparr>"

definition demo_record :: "string \<Rightarrow> token_ref" where
  "demo_record token_id =
     \<lparr>ref_key = token_id, ref_id = token_id, ref_expires = 86400,
      ref_user = \<lparr>fu_id = ''alice'', fu_name = ''Alice'',
                  fu_domain = \<lparr>fd_id = ''default'', fd_name = ''Default''\<rparr>\<rparr>,
      ref_tenant = Some \<lparr>fp_id = ''p1'', fp_name = ''One'',
                         fp_domain = \<lparr>fd_id = ''default'', fd_name = ''Default''\<rparr>\<rparr>,
      ref_metadata = \<lparr>md_roles = Some [''admin'', ''member''], md_trust_id = None,
                      md_trustee_user_id = None\<rparr>,
      ref_token_data = Some demo_body,
      ref_trust_id = None\<rparr>"

text \<open>A record as the V2 API wrote it: no \<^verbatim>\<open>token\<close> key in \<^verbatim>\<open>token_data\<close>.\<close>

definition legacy_record :: "string \<Rightarrow> token_ref" where
  "legacy_record token_id =
     (demo_record token_id)
       \<lparr>ref_token_data := Some \<lparr>body_token = None, body_access = Some []\<rparr>\<rparr>"

text \<open>A legacy record whose project is gone from the identity directory.\<close>

definition orphan_record :: "string \<Rightarrow> token_ref" where
  "orphan_record token_id =
     (legacy_record token_id)
       \<lparr>ref_tenant := Some \<lparr>fp_id = ''p9'', fp_name = ''Nine'',
                            fp_domain = \<lparr>fd_id = ''default'', fd_name = ''Default''\<rparr>\<rparr>\<rparr>"

text \<open>A trust of carol, who is disabled, to bob, without project and with
  impersonation.\<close>

definition carol_trust :: trust_ref where
  "carol_trust =
     \<lparr>t_id = ''t2'', t_trustor_user_id = ''carol'', t_trustee_user_id = ''bob'',
      t_impersonation = True, t_project_id = None, t_roles = []\<rparr>"

text \<open>Prior tokens handed to \<^verbatim>\<open>get_token_data\<close>: one that carries the user only, one
  that carries roles and a catalog, one that carries a domain only, and a complete
  payload with dates of its own.\<close>

definition prior_user :: token_data where
  "prior_user =
     \<lparr>tok_methods = [''password''], tok_extras = None, tok_domain = None,
      tok_project = None,
      tok_user = Some \<lparr>fu_id = ''bob'', fu_name = ''Bob'',
                       fu_domain = \<lparr>fd_id = ''default'', fd_name = ''Default''\<rparr>\<rparr>,
      tok_roles = None, tok_catalog = None, tok_trust = None,
      tok_expires_at = None, tok_issued_at = None\<rparr>"

definition prior_roles :: token_data where
  "prior_roles =
     \<lparr>tok_methods = [''password''], tok_extras = None, tok_domain = None,
      tok_project = None, tok_user = None,
      tok_roles = Some [\<lparr>r_id = ''member'', r_name = ''Member'', r_extra = []\<rparr>],
      tok_catalog = Some [], tok_trust = None,
      tok_expires_at = None, tok_issued_at = None\<rparr>"

definition prior_domain :: token_data where
  "prior_domain =
     \<lparr>tok_methods = [''password''], tok_extras = None,
      tok_domain = Some \<lparr>fd_id = ''default'', fd_name = ''Default''\<rparr>,
      tok_project = None, tok_user = None, tok_roles = None, tok_catalog = None,
      tok_trust = None, tok_expires_at = None, tok_issued_at = None\<rparr>"

definition stale_token :: token_data where
  "stale_token =
     demo_payload\<lparr>tok_expires_at := Some ''2013-05-02T00:00:00.000000Z'',
                  tok_issued_at := Some ''2013-05-01T00:00:00.000000Z''\<rparr>"

text \<open>Modelled from the spec: a Token Store whose persistence fails, here on every
  write, while its reads work.\<close>

definition readonly_api :: "kvs token_api" where
  "readonly_api =
     \<lparr>create_token = (\<lambda>token_id data s. (Inl (Conflict ''read-only''), s)),
      get_token = kvs_get,
      delete_token = (\<lambda>token_id s. (Inl (Conflict ''read-only''), s))\<rparr>"

definition demo_trust :: "trust_role list \<Rightarrow> trust_ref" where
  "demo_trust delegated =
     \<lparr>t_id = ''t1'', t_trustor_user_id = ''alice'', t_trustee_user_id = ''bob'',
      t_impersonation = False, t_project_id = Some ''p1'', t_roles = delegated\<rparr>"

definition demo_domain :: filtered_domain where
  "demo_domain = \<lparr>fd_id = ''default'', fd_name = ''Default''\<rparr>"

definition demo_project :: filtered_project where
  "demo_project = \<lparr>fp_id = ''p1'', fp_name = ''One'', fp_domain = demo_domain\<rparr>"

section \<open>Helper facts\<close>

lemma wrap_not_found_simps:
  "wrap_not_found (Inr x) = Inr x"
  "wrap_not_found (Inl (TokenNotFound m)) = Inl (Unauthorized m)"
  "\<not> is_TokenNotFound e \<Longrightarrow> wrap_not_found (Inl e) = Inl e"
  by (auto simp: wrap_not_found_def is_TokenNotFound_def split: error.splits)

lemma wrap_not_found_never: "wrap_not_found r \<noteq> Inl (TokenNotFound m)"
  by (auto simp: wrap_not_found_def split: sum.splits error.splits)

lemma get_token_data_body:
  "get_token_data env u ms ex d p e t tok = Inr b
     \<Longrightarrow> \<exists>td. b = \<lparr>body_token = Some td, body_access = None\<rparr>"
  by (auto simp: get_token_data_def Let_def split: if_splits sum.splits)

lemma map_of_filter_key: "map_of (filter (\<lambda>kv. fst kv \<noteq> k) s) k = None"
  by (induction s) auto

lemma issue_v3_token_success:
  "issue_v3_token env api token_id kwargs s = (Inr (tid, payload), s')
     \<Longrightarrow> tid = token_id
         \<and> (\<exists>trust. issue_trust env kwargs = Inr trust
               \<and> issue_token_data env kwargs trust = Inr payload)"
  by (auto simp: issue_v3_token_def split: sum.splits prod.splits if_splits)

lemma token_record_token_data:
  "token_record env token_id kwargs trust token_data = Inr data
     \<Longrightarrow> ref_token_data data = Some token_data"
  by (auto simp: token_record_def Let_def split: option.splits sum.splits if_splits)

lemma populate_scope_frame:
  "populate_scope env td d p = Inr td' \<Longrightarrow>
     tok_roles td' = tok_roles td \<and> tok_user td' = tok_user td
     \<and> tok_catalog td' = tok_catalog td \<and> tok_trust td' = tok_trust td
     \<and> tok_methods td' = tok_methods td \<and> tok_extras td' = tok_extras td"
  by (auto simp: populate_scope_def split: if_splits sum.splits)

lemma populate_user_frame:
  "populate_user env td u d p t = Inr td' \<Longrightarrow>
     tok_roles td' = tok_roles td \<and> tok_catalog td' = tok_catalog td
     \<and> tok_domain td' = tok_domain td \<and> tok_project td' = tok_project td
     \<and> tok_methods td' = tok_methods td \<and> tok_extras td' = tok_extras td"
  by (auto simp: populate_user_def split: if_splits sum.splits)

lemma populate_roles_frame:
  "populate_roles env td u d p t = Inr td' \<Longrightarrow>
     tok_user td' = tok_user td \<and> tok_catalog td' = tok_catalog td
     \<and> tok_domain td' = tok_domain td \<and> tok_project td' = tok_project td
     \<and> tok_trust td' = tok_trust td
     \<and> tok_methods td' = tok_methods td \<and> tok_extras td' = tok_extras td"
  by (auto simp: populate_roles_def split: if_splits sum.splits)

lemma populate_service_catalog_frame:
  "populate_service_catalog env td u d p t = Inr td' \<Longrightarrow>
     tok_user td' = tok_user td \<and> tok_roles td' = tok_roles td
     \<and> tok_domain td' = tok_domain td \<and> tok_project td' = tok_project td
     \<and> tok_trust td' = tok_trust td
     \<and> tok_methods td' = tok_methods td \<and> tok_extras td' = tok_extras td"
  by (auto simp: populate_service_catalog_def Let_def split: if_splits sum.splits)

lemma populate_token_dates_frame:
  "tok_user (populate_token_dates env td e) = tok_user td"
  "tok_roles (populate_token_dates env td e) = tok_roles td"
  "tok_domain (populate_token_dates env td e) = tok_domain td"
  "tok_project (populate_token_dates env td e) = tok_project td"
  "tok_catalog (populate_token_dates env td e) = tok_catalog td"
  "tok_trust (populate_token_dates env td e) = tok_trust td"
  "tok_methods (populate_token_dates env td e) = tok_methods td"
  "tok_extras (populate_token_dates env td e) = tok_extras td"
  by (simp_all add: populate_token_dates_def Let_def)

lemma initial_token_data_None:
  "tok_roles (initial_token_data ms ex None) = None"
  "tok_user (initial_token_data ms ex None) = None"
  "tok_catalog (initial_token_data ms ex None) = None"
  "tok_trust (initial_token_data ms ex tok) = None"
  by (simp_all add: initial_token_data_def)

lemma match_trust_roles_eq:
  "match_trust_roles roles trs acc =
     (if \<forall>tr\<in>set trs. \<exists>x\<in>set roles. r_id x = tr_id tr
      then Inr (acc @ map (\<lambda>tr. hd (filter (\<lambda>x. r_id x = tr_id tr) roles)) trs)
      else Inl (Forbidden ''Trustee have no delegated roles.''))"
proof (induction trs arbitrary: acc)
  case Nil
  then show ?case by simp
next
  case (Cons tr trs)
  show ?case
  proof (cases "filter (\<lambda>x. r_id x = tr_id tr) roles")
    case Nil
    then have "\<not> (\<exists>x\<in>set roles. r_id x = tr_id tr)"
      by (simp add: filter_empty_conv)
    with Nil show ?thesis by simp
  next
    case (Cons m ms)
    then have "m \<in> set (filter (\<lambda>x. r_id x = tr_id tr) roles)" by simp
    then have "\<exists>x\<in>set roles. r_id x = tr_id tr" by auto
    with Cons Cons.IH show ?thesis by simp
  qed
qed

lemma find_hd_filter:
  "\<exists>x\<in>set xs. P x \<Longrightarrow> List.find P xs = Some (hd (filter P xs))"
  by (induction xs) auto

lemma get_token_data_Some:
  "get_token_data env user_id ms ex domain_id project_id expires trust token = Inr body
   \<Longrightarrow> \<exists>td1 td2 td3 td4.
        populate_scope env (initial_token_data ms ex token) domain_id project_id = Inr td1
      \<and> populate_user env td1 user_id domain_id project_id trust = Inr td2
      \<and> populate_roles env td2 user_id domain_id project_id trust = Inr td3
      \<and> populate_service_catalog env td3 user_id domain_id project_id trust = Inr td4
      \<and> body = \<lparr>body_token = Some (populate_token_dates env td4 expires), body_access = None\<rparr>"
  by (auto simp: get_token_data_def split: if_splits sum.splits)

text \<open>The method names, the extras and the expiry only pass through the assembly.\<close>

lemma populate_scope_methods:
  "populate_scope env (td\<lparr>tok_methods := m, tok_extras := x\<rparr>) d p =
     (case populate_scope env td d p of
        Inl e \<Rightarrow> Inl e
      | Inr td' \<Rightarrow> Inr (td'\<lparr>tok_methods := m, tok_extras := x\<rparr>))"
  by (auto simp: populate_scope_def split: sum.splits)

lemma populate_user_methods:
  "populate_user env (td\<lparr>tok_methods := m, tok_extras := x\<rparr>) u d p t =
     (case populate_user env td u d p t of
        Inl e \<Rightarrow> Inl e
      | Inr td' \<Rightarrow> Inr (td'\<lparr>tok_methods := m, tok_extras := x\<rparr>))"
  by (auto simp: populate_user_def split: sum.splits)

lemma populate_roles_methods:
  "populate_roles env (td\<lparr>tok_methods := m, tok_extras := x\<rparr>) u d p t =
     (case populate_roles env td u d p t of
        Inl e \<Rightarrow> Inl e
      | Inr td' \<Rightarrow> Inr (td'\<lparr>tok_methods := m, tok_extras := x\<rparr>))"
  by (auto simp: populate_roles_def split: sum.splits)

lemma populate_service_catalog_methods:
  "populate_service_catalog env (td\<lparr>tok_methods := m, tok_extras := x\<rparr>) u d p t =
     (case populate_service_catalog env td u d p t of
        Inl e \<Rightarrow> Inl e
      | Inr td' \<Rightarrow> Inr (td'\<lparr>tok_methods := m, tok_extras := x\<rparr>))"
  by (auto simp: populate_service_catalog_def Let_def split: sum.splits)

lemma initial_token_data_methods:
  "initial_token_data m x tok = (initial_token_data ms ex tok)\<lparr>tok_methods := m, tok_extras := x\<rparr>"
  by (simp add: initial_token_data_def)

lemma get_token_data_methods:
  "get_token_data env u m x d p e' t tok =
     (case get_token_data env u ms ex d p e t tok of
        Inl err \<Rightarrow> Inl err
      | Inr b \<Rightarrow>
          (case body_token b of
             None \<Rightarrow> Inr b
           | Some td \<Rightarrow> Inr \<lparr>body_token = Some (populate_token_dates env
                                 (td\<lparr>tok_methods := m, tok_extras := x\<rparr>) e'),
                              body_access = None\<rparr>))"
  unfolding get_token_data_def Let_def initial_token_data_methods [of m x tok ms ex]
  by (auto simp: populate_scope_methods populate_user_methods populate_roles_methods
      populate_service_catalog_methods populate_token_dates_def Let_def split: sum.splits)

section \<open>Evaluation on the small deployment\<close>

lemmas demo_eval =
  demo_env_def demo_kwargs_def initial_token_data_def trust_active_def populate_scope_def
  truthy_def get_filtered_project_def get_filtered_domain_def demo_get_project_def
  demo_get_domain_def populate_user_def demo_get_user_def populate_roles_def
  token_domain_id_def token_project_id_def token_user_id_def get_roles_for_user_def
  demo_get_role_def filter_roles_def filter_role_def populate_service_catalog_def
  populate_token_dates_def expires_given_def demo_trust_def


lemma V3_demo: "V3 demo_env = ''v3.0''"
  by (simp add: demo_env_def)

lemma issue_trust_demo: "issue_trust demo_env demo_kwargs = Inr None"
  by (simp add: issue_trust_def demo_kwargs_def)

lemma demo_get_token_data:
  "issue_token_data demo_env demo_kwargs None = Inr demo_body"
  by (simp add: issue_token_data_def get_token_data_def demo_env_def demo_kwargs_def
      initial_token_data_def trust_active_def populate_scope_def truthy_def
      get_filtered_project_def get_filtered_domain_def demo_get_project_def demo_get_domain_def
      populate_user_def demo_get_user_def populate_roles_def token_domain_id_def
      token_project_id_def token_user_id_def get_roles_for_user_def demo_get_role_def
      filter_roles_def filter_role_def populate_service_catalog_def populate_token_dates_def
      expires_given_def demo_body_def demo_payload_def)

lemma demo_token_record:
  "token_record demo_env tid demo_kwargs None demo_body = Inr (demo_record tid)"
  by (simp add: token_record_def demo_body_def demo_payload_def demo_env_def demo_record_def
      demo_kwargs_def)

lemma kvs_api_simps:
  "create_token kvs_api = kvs_create"
  "get_token kvs_api = kvs_get"
  "delete_token kvs_api = kvs_delete"
  by (simp_all add: kvs_api_def)

lemma readonly_api_simps:
  "create_token readonly_api token_id data s = (Inl (Conflict ''read-only''), s)"
  "get_token readonly_api = kvs_get"
  by (simp_all add: readonly_api_def)

lemma demo_validate:
  "validate_token demo_env kvs_api ''tid1'' None ''v3.0'' [(''tid1'', demo_record ''tid1'')]
     = Inr demo_body"
  by (simp add: validate_token_def validate_v3_token_def verify_token_def kvs_api_simps
      kvs_get_def V3_demo truthy_def has_v3_payload_def demo_record_def demo_body_def
      wrap_not_found_simps)

lemma demo_check:
  "check_token demo_env kvs_api ''tid1'' None ''v3.0'' [(''tid1'', demo_record ''tid1'')]
     = Inr ()"
  by (simp add: check_token_def verify_token_def kvs_api_simps
      kvs_get_def V3_demo truthy_def wrap_not_found_simps)

section \<open>Issuance and the token store\<close>

text \<open>
  Claim C3. When the create of the token store fails, with whatever error,
  \<^verbatim>\<open>_issue_v3_token\<close> looks the generated token id up in the store. If a record is
  there, the failure is dropped and the issuance returns the token id and the payload;
  if the lookup raises TokenNotFound, the failure of the create is raised again as it
  was.
\<close>

theorem create_failure_recheck:
  assumes "issue_trust env kwargs = Inr trust"
    and "issue_token_data env kwargs trust = Inr token_data"
    and "token_record env token_id kwargs trust token_data = Inr data"
    and "create_token api token_id data s = (Inl exc, s1)"
  shows "(\<forall>found. get_token api token_id s1 = Inr found \<longrightarrow>
            issue_token env api token_id (V3 env) kwargs s = (Inr (token_id, token_data), s1))
       \<and> (\<forall>m. get_token api token_id s1 = Inl (TokenNotFound m) \<longrightarrow>
            issue_token env api token_id (V3 env) kwargs s = (Inl exc, s1))"
  using assms
  by (simp add: issue_token_def issue_v3_token_def store_token_record_def is_TokenNotFound_def)

text \<open>On the small deployment: a create that meets a record under the same id is
  swallowed, and a create refused by a store that holds no record under the id raises
  the refusal.\<close>

theorem create_failure_recheck_witness:
  "create_token kvs_api ''tid1'' (demo_record ''tid1'') [(''tid1'', legacy_record ''tid1'')]
     = (Inl (Conflict ''tid1''), [(''tid1'', legacy_record ''tid1'')])
   \<and> get_token kvs_api ''tid1'' [(''tid1'', legacy_record ''tid1'')]
     = Inr (legacy_record ''tid1'')
   \<and> issue_token demo_env kvs_api ''tid1'' (V3 demo_env) demo_kwargs
       [(''tid1'', legacy_record ''tid1'')]
     = (Inr (''tid1'', demo_body), [(''tid1'', legacy_record ''tid1'')])
   \<and> get_token readonly_api ''tid1'' [] = Inl (TokenNotFound ''tid1'')
   \<and> issue_token demo_env readonly_api ''tid1'' (V3 demo_env) demo_kwargs []
     = (Inl (Conflict ''read-only''), [])"
proof -
  have a: "create_token kvs_api ''tid1'' (demo_record ''tid1'')
             [(''tid1'', legacy_record ''tid1'')]
           = (Inl (Conflict ''tid1''), [(''tid1'', legacy_record ''tid1'')])"
    by (simp add: kvs_api_simps kvs_create_def)
  have b: "get_token kvs_api ''tid1'' [(''tid1'', legacy_record ''tid1'')]
           = Inr (legacy_record ''tid1'')"
    by (simp add: kvs_api_simps kvs_get_def)
  have c: "get_token readonly_api ''tid1'' [] = Inl (TokenNotFound ''tid1'')"
    by (simp add: readonly_api_simps kvs_get_def)
  from create_failure_recheck [OF issue_trust_demo demo_get_token_data demo_token_record a] b
  have 1: "issue_token demo_env kvs_api ''tid1'' (V3 demo_env) demo_kwargs
             [(''tid1'', legacy_record ''tid1'')]
           = (Inr (''tid1'', demo_body), [(''tid1'', legacy_record ''tid1'')])"
    by blast
  from create_failure_recheck [OF issue_trust_demo demo_get_token_data demo_token_record
      readonly_api_simps(1)] c
  have 2: "issue_token demo_env readonly_api ''tid1'' (V3 demo_env) demo_kwargs []
           = (Inl (Conflict ''read-only''), [])"
    by blast
  from a b c 1 2 show ?thesis by simp
qed



text \<open>
  Claim C4. A token that \<^verbatim>\<open>issue_token\<close> has just issued, so that the store holds under
  its id a record with the payload in \<^verbatim>\<open>token_data\<close>, validates to the payload that the
  issuance returned: \<^verbatim>\<open>_validate_v3_token\<close> returns the stored \<^verbatim>\<open>token_data\<close> and does not
  assemble again. The first part is for any token store that returns such a record; the
  second part is the whole round trip on the key-value store, for an id that was free.
\<close>

theorem validate_after_issue:
  "(\<forall>r. issue_token env api token_id (V3 env) kwargs s = (Inr (tid, payload), s')
         \<and> get_token api tid s' = Inr r \<and> ref_token_data r = Some payload
       \<longrightarrow> validate_token env api tid belongs_to (V3 env) s' = Inr payload)
   \<and> (map_of ks token_id = None
       \<and> issue_token env kvs_api token_id (V3 env) kwargs ks = (Inr (tid, payload), ks')
       \<longrightarrow> validate_token env kvs_api tid belongs_to (V3 env) ks' = Inr payload)"
proof (intro conjI allI impI)
  fix r
  assume a: "issue_token env api token_id (V3 env) kwargs s = (Inr (tid, payload), s')
         \<and> get_token api tid s' = Inr r \<and> ref_token_data r = Some payload"
  then have "issue_v3_token env api token_id kwargs s = (Inr (tid, payload), s')"
    by (simp add: issue_token_def)
  from issue_v3_token_success [OF this] obtain trust
    where "issue_token_data env kwargs trust = Inr payload" by blast
  then have "body_token payload \<noteq> None"
    unfolding issue_token_data_def by (auto dest: get_token_data_body)
  with a show "validate_token env api tid belongs_to (V3 env) s' = Inr payload"
    by (simp add: validate_token_def validate_v3_token_def verify_token_def truthy_def
        has_v3_payload_def wrap_not_found_simps)
next
  assume a: "map_of ks token_id = None
       \<and> issue_token env kvs_api token_id (V3 env) kwargs ks = (Inr (tid, payload), ks')"
  then have i: "issue_v3_token env kvs_api token_id kwargs ks = (Inr (tid, payload), ks')"
    by (simp add: issue_token_def)
  from issue_v3_token_success [OF this] obtain trust
    where t: "tid = token_id" "issue_trust env kwargs = Inr trust"
      "issue_token_data env kwargs trust = Inr payload" by blast
  from t(3) have b: "body_token payload \<noteq> None"
    unfolding issue_token_data_def by (auto dest: get_token_data_body)
  show "validate_token env kvs_api tid belongs_to (V3 env) ks' = Inr payload"
  proof (cases "token_record env token_id kwargs trust payload")
    case (Inl e)
    with i t a show ?thesis
      by (simp add: issue_v3_token_def store_token_record_def kvs_api_simps kvs_get_def
          is_TokenNotFound_def)
  next
    case (Inr data)
    from token_record_token_data [OF Inr] have d: "ref_token_data data = Some payload" .
    from i t a Inr have "ks' = (token_id, data) # ks"
      by (simp add: issue_v3_token_def store_token_record_def kvs_api_simps kvs_create_def)
    with t d b show ?thesis
      by (simp add: validate_token_def validate_v3_token_def verify_token_def truthy_def
          has_v3_payload_def wrap_not_found_simps kvs_api_simps kvs_get_def)
  qed
qed

text \<open>On the small deployment: alice's token for p1, issued into the empty store.\<close>

theorem validate_after_issue_witness:
  "map_of ([] :: kvs) ''tid1'' = None
   \<and> issue_token demo_env kvs_api ''tid1'' (V3 demo_env) demo_kwargs []
       = (Inr (''tid1'', demo_body), [(''tid1'', demo_record ''tid1'')])
   \<and> validate_token demo_env kvs_api ''tid1'' None (V3 demo_env)
       [(''tid1'', demo_record ''tid1'')] = Inr demo_body"
proof -
  have i: "issue_token demo_env kvs_api ''tid1'' (V3 demo_env) demo_kwargs []
       = (Inr (''tid1'', demo_body), [(''tid1'', demo_record ''tid1'')])"
    by (simp add: issue_token_def issue_v3_token_def issue_trust_demo demo_get_token_data
        store_token_record_def demo_token_record kvs_api_simps kvs_create_def)
  have m: "map_of ([] :: kvs) ''tid1'' = None" by simp
  from validate_after_issue [of demo_env kvs_api "''tid1''" demo_kwargs "[]" "''tid1''"
      demo_body "[(''tid1'', demo_record ''tid1'')]" None "[]"
      "[(''tid1'', demo_record ''tid1'')]"] i m
  have "validate_token demo_env kvs_api ''tid1'' None (V3 demo_env)
       [(''tid1'', demo_record ''tid1'')] = Inr demo_body"
    by blast
  with i m show ?thesis by simp
qed

section \<open>Validation\<close>

text \<open>
  Claim C7. When the fetch from the token store raises TokenNotFound, \<^verbatim>\<open>validate_token\<close>
  and \<^verbatim>\<open>check_token\<close> raise Unauthorized, and neither ever raises TokenNotFound itself; so
  a token that was revoked validates to Unauthorized. An error of another collaborator
  (user, project, domain, role or trust not found) is not translated: it leaves the
  reconstruction of a legacy record, the lookup of the trust and the assembly of an
  issuance as it was raised.
\<close>

theorem token_not_found_unauthorized:
  "(\<forall>m. get_token api token_id s = Inl (TokenNotFound m) \<longrightarrow>
        validate_token env api token_id belongs_to (V3 env) s = Inl (Unauthorized m)
      \<and> check_token env api token_id belongs_to (V3 env) s = Inl (Unauthorized m))
   \<and> validate_token env api token_id belongs_to version s \<noteq> Inl (TokenNotFound m')
   \<and> check_token env api token_id belongs_to version s \<noteq> Inl (TokenNotFound m')
   \<and> validate_token env kvs_api token_id belongs_to (V3 env)
        (snd (revoke_token kvs_api token_id ks)) = Inl (Unauthorized token_id)
   \<and> (\<forall>r e. get_token api token_id s = Inr r \<and> \<not> has_v3_payload (ref_token_data r)
          \<and> get_token_data env (fu_id (ref_user r)) [''password'', ''token''] (Some []) None
               (map_option fp_id (ref_tenant r)) (Some (ExpTime (ref_expires r))) None None
              = Inl e
          \<and> \<not> is_TokenNotFound e
        \<longrightarrow> validate_token env api token_id belongs_to (V3 env) s = Inl e)
   \<and> (\<forall>e. issue_trust env kwargs = Inl e
        \<longrightarrow> issue_token env api new_id (V3 env) kwargs s = (Inl e, s))
   \<and> (\<forall>trust e. issue_trust env kwargs = Inr trust \<and> issue_token_data env kwargs trust = Inl e
        \<longrightarrow> issue_token env api new_id (V3 env) kwargs s = (Inl e, s))"
proof (intro conjI allI impI)
  fix m assume "get_token api token_id s = Inl (TokenNotFound m)"
  then show "validate_token env api token_id belongs_to (V3 env) s = Inl (Unauthorized m)"
    by (simp add: validate_token_def validate_v3_token_def verify_token_def wrap_not_found_simps)
next
  fix m assume "get_token api token_id s = Inl (TokenNotFound m)"
  then show "check_token env api token_id belongs_to (V3 env) s = Inl (Unauthorized m)"
    by (simp add: check_token_def verify_token_def wrap_not_found_simps)
next
  show "validate_token env api token_id belongs_to version s \<noteq> Inl (TokenNotFound m')"
    unfolding validate_token_def by (rule wrap_not_found_never)
next
  show "check_token env api token_id belongs_to version s \<noteq> Inl (TokenNotFound m')"
    unfolding check_token_def by (rule wrap_not_found_never)
next
  have "kvs_get token_id (snd (kvs_delete token_id ks)) = Inl (TokenNotFound token_id)"
    by (cases "map_of ks token_id") (simp_all add: kvs_get_def kvs_delete_def map_of_filter_key)
  then show "validate_token env kvs_api token_id belongs_to (V3 env)
        (snd (revoke_token kvs_api token_id ks)) = Inl (Unauthorized token_id)"
    by (simp add: validate_token_def validate_v3_token_def verify_token_def revoke_token_def
        kvs_api_simps wrap_not_found_simps)
next
  fix r e
  assume "get_token api token_id s = Inr r \<and> \<not> has_v3_payload (ref_token_data r)
          \<and> get_token_data env (fu_id (ref_user r)) [''password'', ''token''] (Some []) None
               (map_option fp_id (ref_tenant r)) (Some (ExpTime (ref_expires r))) None None
              = Inl e
          \<and> \<not> is_TokenNotFound e"
  then show "validate_token env api token_id belongs_to (V3 env) s = Inl e"
    by (cases "ref_tenant r")
      (simp_all add: validate_token_def validate_v3_token_def verify_token_def truthy_def
        wrap_not_found_simps)
next
  fix e assume "issue_trust env kwargs = Inl e"
  then show "issue_token env api new_id (V3 env) kwargs s = (Inl e, s)"
    by (simp add: issue_token_def issue_v3_token_def)
next
  fix trust e
  assume "issue_trust env kwargs = Inr trust \<and> issue_token_data env kwargs trust = Inl e"
  then show "issue_token env api new_id (V3 env) kwargs s = (Inl e, s)"
    by (simp add: issue_token_def issue_v3_token_def)
qed

text \<open>On the small deployment: an unknown id, a revoked token, and a legacy record
  whose project no longer exists.\<close>

theorem token_not_found_unauthorized_witness:
  "get_token kvs_api ''tid9'' [] = Inl (TokenNotFound ''tid9'')
   \<and> validate_token demo_env kvs_api ''tid9'' None (V3 demo_env) [] = Inl (Unauthorized ''tid9'')
   \<and> check_token demo_env kvs_api ''tid9'' None (V3 demo_env) [] = Inl (Unauthorized ''tid9'')
   \<and> validate_token demo_env kvs_api ''tid1'' None (V3 demo_env)
        (snd (revoke_token kvs_api ''tid1'' [(''tid1'', demo_record ''tid1'')]))
      = Inl (Unauthorized ''tid1'')
   \<and> get_token kvs_api ''tid2'' [(''tid2'', orphan_record ''tid2'')]
      = Inr (orphan_record ''tid2'')
   \<and> validate_token demo_env kvs_api ''tid2'' None (V3 demo_env)
        [(''tid2'', orphan_record ''tid2'')]
      = Inl (ProjectNotFound ''p9'')
   \<and> issue_token demo_env kvs_api ''tid3'' (V3 demo_env)
        (demo_kwargs\<lparr>kw_metadata_ref := Some \<lparr>md_roles = None, md_trust_id = Some ''t9'',
                                               md_trustee_user_id = None\<rparr>\<rparr>) []
      = (Inl (TrustNotFound ''t9''), [])
   \<and> issue_token demo_env kvs_api ''tid3'' (V3 demo_env)
        (demo_kwargs\<lparr>kw_user_id := ''ghost''\<rparr>) []
      = (Inl (UserNotFound ''ghost''), [])"
proof -
  let ?km = "demo_kwargs\<lparr>kw_metadata_ref := Some \<lparr>md_roles = None, md_trust_id = Some ''t9'',
                                               md_trustee_user_id = None\<rparr>\<rparr>"
  let ?kg = "demo_kwargs\<lparr>kw_user_id := ''ghost''\<rparr>"
  have it: "issue_trust demo_env ?km = Inl (TrustNotFound ''t9'')"
    by (simp add: issue_trust_def demo_kwargs_def demo_env_def)
  from token_not_found_unauthorized [where env = demo_env and kwargs = ?km
      and api = kvs_api and new_id = "''tid3''" and s = "[]"] it
  have 4: "issue_token demo_env kvs_api ''tid3'' (V3 demo_env) ?km []
      = (Inl (TrustNotFound ''t9''), [])"
    by blast
  have ig: "issue_trust demo_env ?kg = Inr None
      \<and> issue_token_data demo_env ?kg None = Inl (UserNotFound ''ghost'')"
    by (simp add: issue_trust_def issue_token_data_def get_token_data_def demo_eval)
  from token_not_found_unauthorized [where env = demo_env and kwargs = ?kg
      and api = kvs_api and new_id = "''tid3''" and s = "[]"] ig
  have 5: "issue_token demo_env kvs_api ''tid3'' (V3 demo_env) ?kg []
      = (Inl (UserNotFound ''ghost''), [])"
    by blast
  have g: "get_token kvs_api ''tid9'' [] = Inl (TokenNotFound ''tid9'')"
    by (simp add: kvs_api_simps kvs_get_def)
  note a = token_not_found_unauthorized [of kvs_api "''tid9''" "[]" demo_env None]
  from a g have 1: "validate_token demo_env kvs_api ''tid9'' None (V3 demo_env) []
      = Inl (Unauthorized ''tid9'')
    \<and> check_token demo_env kvs_api ''tid9'' None (V3 demo_env) [] = Inl (Unauthorized ''tid9'')"
    by blast
  have 2: "validate_token demo_env kvs_api ''tid1'' None (V3 demo_env)
        (snd (revoke_token kvs_api ''tid1'' [(''tid1'', demo_record ''tid1'')]))
      = Inl (Unauthorized ''tid1'')"
    using token_not_found_unauthorized [of kvs_api "''tid1''" "[]" demo_env None _ _
        "[(''tid1'', demo_record ''tid1'')]"] by blast
  have o: "get_token kvs_api ''tid2'' [(''tid2'', orphan_record ''tid2'')]
      = Inr (orphan_record ''tid2'')"
    by (simp add: kvs_api_simps kvs_get_def)
  have p: "\<not> has_v3_payload (ref_token_data (orphan_record ''tid2''))"
    by (simp add: has_v3_payload_def orphan_record_def legacy_record_def)
  have q: "get_token_data demo_env (fu_id (ref_user (orphan_record ''tid2'')))
             [''password'', ''token''] (Some []) None
             (map_option fp_id (ref_tenant (orphan_record ''tid2'')))
             (Some (ExpTime (ref_expires (orphan_record ''tid2'')))) None None
           = Inl (ProjectNotFound ''p9'')"
    by (simp add: orphan_record_def legacy_record_def demo_record_def get_token_data_def
        initial_token_data_def trust_active_def populate_scope_def truthy_def
        get_filtered_project_def demo_env_def demo_get_project_def)
  have r: "\<not> is_TokenNotFound (ProjectNotFound ''p9'')"
    by (simp add: is_TokenNotFound_def)
  from token_not_found_unauthorized [of kvs_api "''tid2''"
      "[(''tid2'', orphan_record ''tid2'')]" demo_env None] o p q r
  have 3: "validate_token demo_env kvs_api ''tid2'' None (V3 demo_env)
        [(''tid2'', orphan_record ''tid2'')] = Inl (ProjectNotFound ''p9'')"
    by blast
  from g 1 2 o 3 4 5 show ?thesis by simp
qed

text \<open>
  Claim C8. For a stored record whose \<^verbatim>\<open>token_data\<close> has no \<^verbatim>\<open>token\<close> key,
  \<^verbatim>\<open>validate_token\<close> returns what \<^verbatim>\<open>get_token_data\<close> assembles from the user id of the
  record, the project id of its tenant (no project when the tenant is missing) and its
  expiry, with the methods password and token and empty extras, without domain, trust or
  prior token. The payload has these methods, these extras and the expiry of the record;
  and whatever methods, extras and expiry a fresh assembly for that user and project is
  given, validation returns a payload with the same roles, catalog, project, domain and
  user as the fresh one, and fails with the same error where the fresh one fails.
\<close>

theorem legacy_record_reconstructed:
  assumes "get_token api token_id s = Inr r"
    and "\<not> has_v3_payload (ref_token_data r)"
  shows "validate_token env api token_id belongs_to (V3 env) s
           = wrap_not_found
               (get_token_data env (fu_id (ref_user r)) [''password'', ''token''] (Some [])
                  None (map_option fp_id (ref_tenant r)) (Some (ExpTime (ref_expires r)))
                  None None)
       \<and> (\<forall>body. validate_token env api token_id belongs_to (V3 env) s = Inr body \<longrightarrow>
             (\<exists>out. body_token body = Some out
                \<and> tok_methods out = [''password'', ''token'']
                \<and> tok_extras out = Some []
                \<and> tok_expires_at out = Some (isotime env (ref_expires r))))
       \<and> (\<forall>ms ex expires fresh.
             get_token_data env (fu_id (ref_user r)) ms ex None
               (map_option fp_id (ref_tenant r)) expires None None = Inr fresh \<longrightarrow>
             (\<exists>out f. validate_token env api token_id belongs_to (V3 env) s
                        = Inr \<lparr>body_token = Some out, body_access = None\<rparr>
                \<and> body_token fresh = Some f
                \<and> tok_roles out = tok_roles f \<and> tok_catalog out = tok_catalog f
                \<and> tok_project out = tok_project f \<and> tok_domain out = tok_domain f
                \<and> tok_user out = tok_user f))
       \<and> (\<forall>ms ex expires e.
             get_token_data env (fu_id (ref_user r)) ms ex None
               (map_option fp_id (ref_tenant r)) expires None None = Inl e \<longrightarrow>
             validate_token env api token_id belongs_to (V3 env) s = wrap_not_found (Inl e))"
proof -
  let ?legacy = "get_token_data env (fu_id (ref_user r)) [''password'', ''token''] (Some [])
                  None (map_option fp_id (ref_tenant r)) (Some (ExpTime (ref_expires r)))
                  None None"
  have v: "validate_token env api token_id belongs_to (V3 env) s = wrap_not_found ?legacy"
    using assms
    by (cases "ref_tenant r")
      (simp_all add: validate_token_def validate_v3_token_def verify_token_def truthy_def)
  have 2: "\<exists>out. body_token body = Some out
                \<and> tok_methods out = [''password'', ''token'']
                \<and> tok_extras out = Some []
                \<and> tok_expires_at out = Some (isotime env (ref_expires r))"
    if "validate_token env api token_id belongs_to (V3 env) s = Inr body" for body
  proof -
    from that v have g: "?legacy = Inr body"
      by (cases ?legacy) (auto simp: wrap_not_found_def split: error.splits)
    from get_token_data_Some [OF g] obtain td1 td2 td3 td4 where
      s: "populate_scope env (initial_token_data [''password'', ''token''] (Some []) None)
            None (map_option fp_id (ref_tenant r)) = Inr td1"
      and u: "populate_user env td1 (fu_id (ref_user r)) None
            (map_option fp_id (ref_tenant r)) None = Inr td2"
      and ro: "populate_roles env td2 (fu_id (ref_user r)) None
            (map_option fp_id (ref_tenant r)) None = Inr td3"
      and c: "populate_service_catalog env td3 (fu_id (ref_user r)) None
            (map_option fp_id (ref_tenant r)) None = Inr td4"
      and b: "body = \<lparr>body_token = Some (populate_token_dates env td4
                 (Some (ExpTime (ref_expires r)))), body_access = None\<rparr>"
      by blast
    have "tok_methods td4 = [''password'', ''token''] \<and> tok_extras td4 = Some []"
      using populate_scope_frame [OF s] populate_user_frame [OF u] populate_roles_frame [OF ro]
        populate_service_catalog_frame [OF c]
      by (simp add: initial_token_data_def)
    with b show ?thesis
      by (simp add: populate_token_dates_frame)
        (simp add: populate_token_dates_def expires_given_def)
  qed
  have 3: "\<exists>out f. validate_token env api token_id belongs_to (V3 env) s
                        = Inr \<lparr>body_token = Some out, body_access = None\<rparr>
                \<and> body_token fresh = Some f
                \<and> tok_roles out = tok_roles f \<and> tok_catalog out = tok_catalog f
                \<and> tok_project out = tok_project f \<and> tok_domain out = tok_domain f
                \<and> tok_user out = tok_user f"
    if f: "get_token_data env (fu_id (ref_user r)) ms ex None
               (map_option fp_id (ref_tenant r)) expires None None = Inr fresh"
    for ms ex expires fresh
  proof -
    from get_token_data_body [OF f] obtain td
      where t: "fresh = \<lparr>body_token = Some td, body_access = None\<rparr>" by blast
    let ?out = "populate_token_dates env
                  (td\<lparr>tok_methods := [''password'', ''token''], tok_extras := Some []\<rparr>)
                  (Some (ExpTime (ref_expires r)))"
    have "?legacy = Inr \<lparr>body_token = Some ?out, body_access = None\<rparr>"
      using f t
      by (simp add: get_token_data_methods [where ms = ms and ex = ex and e = expires
            and m = "[''password'', ''token'']"])
    with v have "validate_token env api token_id belongs_to (V3 env) s
        = Inr \<lparr>body_token = Some ?out, body_access = None\<rparr>"
      by (simp add: wrap_not_found_simps)
    with t show ?thesis
      by (simp add: populate_token_dates_frame)
  qed
  have 4: "validate_token env api token_id belongs_to (V3 env) s = wrap_not_found (Inl e)"
    if f: "get_token_data env (fu_id (ref_user r)) ms ex None
               (map_option fp_id (ref_tenant r)) expires None None = Inl e"
    for ms ex expires e
  proof -
    have "?legacy = Inl e"
      using f
      by (simp add: get_token_data_methods [where ms = ms and ex = ex and e = expires
            and m = "[''password'', ''token'']"])
    with v show ?thesis by simp
  qed
  from v 2 3 4 show ?thesis by blast
qed

text \<open>On the small deployment: a record of the V2 API for alice on p1 validates to
  the payload of alice's fresh issuance on p1, but for the methods and the extras.\<close>

theorem legacy_record_reconstructed_witness:
  "get_token kvs_api ''tid1'' [(''tid1'', legacy_record ''tid1'')] = Inr (legacy_record ''tid1'')
   \<and> ref_token_data (legacy_record ''tid1'')
       = Some \<lparr>body_token = None, body_access = Some []\<rparr>
   \<and> issue_token_data demo_env demo_kwargs None = Inr demo_body
   \<and> validate_token demo_env kvs_api ''tid1'' None (V3 demo_env)
        [(''tid1'', legacy_record ''tid1'')]
      = Inr \<lparr>body_token =
               Some (demo_payload\<lparr>tok_methods := [''password'', ''token''],
                                  tok_extras := Some []\<rparr>),
             body_access = None\<rparr>
   \<and> (\<exists>out. validate_token demo_env kvs_api ''tid1'' None (V3 demo_env)
               [(''tid1'', legacy_record ''tid1'')]
             = Inr \<lparr>body_token = Some out, body_access = None\<rparr>
          \<and> tok_roles out = tok_roles demo_payload
          \<and> tok_catalog out = tok_catalog demo_payload
          \<and> tok_project out = tok_project demo_payload
          \<and> tok_user out = tok_user demo_payload)
   \<and> validate_token demo_env kvs_api ''tid2'' None (V3 demo_env)
        [(''tid2'', orphan_record ''tid2'')]
      = Inl (ProjectNotFound ''p9'')"
proof -
  have g: "get_token kvs_api ''tid1'' [(''tid1'', legacy_record ''tid1'')]
      = Inr (legacy_record ''tid1'')"
    by (simp add: kvs_api_simps kvs_get_def)
  have l: "ref_token_data (legacy_record ''tid1'')
       = Some \<lparr>body_token = None, body_access = Some []\<rparr>"
    by (simp add: legacy_record_def)
  then have n: "\<not> has_v3_payload (ref_token_data (legacy_record ''tid1''))"
    by (simp add: has_v3_payload_def)
  have e: "get_token_data demo_env (fu_id (ref_user (legacy_record ''tid1'')))
             [''password'', ''token''] (Some []) None
             (map_option fp_id (ref_tenant (legacy_record ''tid1'')))
             (Some (ExpTime (ref_expires (legacy_record ''tid1'')))) None None
           = Inr \<lparr>body_token =
               Some (demo_payload\<lparr>tok_methods := [''password'', ''token''],
                                  tok_extras := Some []\<rparr>),
             body_access = None\<rparr>"
    by (simp add: legacy_record_def demo_record_def get_token_data_def demo_eval
        demo_payload_def)
  from legacy_record_reconstructed [OF g n, of demo_env None] e
  have "validate_token demo_env kvs_api ''tid1'' None (V3 demo_env)
        [(''tid1'', legacy_record ''tid1'')]
      = Inr \<lparr>body_token =
               Some (demo_payload\<lparr>tok_methods := [''password'', ''token''],
                                  tok_extras := Some []\<rparr>),
             body_access = None\<rparr>"
    by (simp add: wrap_not_found_simps)
  note 1 = this
  have f: "get_token_data demo_env (fu_id (ref_user (legacy_record ''tid1'')))
             [''password''] None None
             (map_option fp_id (ref_tenant (legacy_record ''tid1''))) None None None
           = Inr demo_body"
    using demo_get_token_data
    by (simp add: issue_token_data_def demo_kwargs_def legacy_record_def demo_record_def)
  from legacy_record_reconstructed [OF g n, of demo_env None] f
  have 2: "\<exists>out. validate_token demo_env kvs_api ''tid1'' None (V3 demo_env)
               [(''tid1'', legacy_record ''tid1'')]
             = Inr \<lparr>body_token = Some out, body_access = None\<rparr>
          \<and> tok_roles out = tok_roles demo_payload
          \<and> tok_catalog out = tok_catalog demo_payload
          \<and> tok_project out = tok_project demo_payload
          \<and> tok_user out = tok_user demo_payload"
    by (fastforce simp: demo_body_def)
  have og: "get_token kvs_api ''tid2'' [(''tid2'', orphan_record ''tid2'')]
      = Inr (orphan_record ''tid2'')"
    by (simp add: kvs_api_simps kvs_get_def)
  have on: "\<not> has_v3_payload (ref_token_data (orphan_record ''tid2''))"
    by (simp add: has_v3_payload_def orphan_record_def legacy_record_def)
  have oe: "get_token_data demo_env (fu_id (ref_user (orphan_record ''tid2'')))
             [''password''] None None
             (map_option fp_id (ref_tenant (orphan_record ''tid2''))) None None None
           = Inl (ProjectNotFound ''p9'')"
    by (simp add: orphan_record_def legacy_record_def demo_record_def get_token_data_def
        demo_eval)
  from legacy_record_reconstructed [OF og on, of demo_env None] oe
  have "validate_token demo_env kvs_api ''tid2'' None (V3 demo_env)
        [(''tid2'', orphan_record ''tid2'')]
      = wrap_not_found (Inl (ProjectNotFound ''p9''))"
    by blast
  then have 3: "validate_token demo_env kvs_api ''tid2'' None (V3 demo_env)
        [(''tid2'', orphan_record ''tid2'')]
      = Inl (ProjectNotFound ''p9'')"
    by (simp add: wrap_not_found_simps is_TokenNotFound_def)
  from g l demo_get_token_data 1 2 3 show ?thesis by blast
qed

text \<open>
  Claim C10. \<^verbatim>\<open>validate_token\<close> and \<^verbatim>\<open>check_token\<close> take \<^verbatim>\<open>belongs_to\<close> and never use
  it: whatever its value, the result is the one of the call without it. Only
  \<^verbatim>\<open>_verify_token\<close> compares it with the tenant of the record, and fails the assertion
  when they differ.
\<close>

theorem belongs_to_ignored:
  "validate_token env api token_id belongs_to version s
     = validate_token env api token_id None version s
   \<and> check_token env api token_id belongs_to version s
     = check_token env api token_id None version s
   \<and> (\<forall>r p. get_token api token_id s = Inr r \<and> ref_tenant r = Some p \<and> truthy belongs_to
          \<and> fp_id p \<noteq> the belongs_to
        \<longrightarrow> verify_token api token_id belongs_to s = Inl AssertionError)"
  by (simp add: validate_token_def check_token_def verify_token_def)

text \<open>On the small deployment: a token of project p1 validates and checks under
  \<^verbatim>\<open>belongs_to = 'p2'\<close>, where \<^verbatim>\<open>_verify_token\<close> fails.\<close>

theorem belongs_to_ignored_witness:
  "validate_token demo_env kvs_api ''tid1'' (Some ''p2'') ''v3.0''
       [(''tid1'', demo_record ''tid1'')] = Inr demo_body
   \<and> check_token demo_env kvs_api ''tid1'' (Some ''p2'') ''v3.0''
       [(''tid1'', demo_record ''tid1'')] = Inr ()
   \<and> verify_token kvs_api ''tid1'' (Some ''p2'') [(''tid1'', demo_record ''tid1'')]
       = Inl AssertionError"
proof -
  have g: "get_token kvs_api ''tid1'' [(''tid1'', demo_record ''tid1'')]
             = Inr (demo_record ''tid1'')"
    by (simp add: kvs_api_simps kvs_get_def)
  have t: "ref_tenant (demo_record ''tid1'') = Some demo_project"
    by (simp add: demo_record_def demo_project_def demo_domain_def)
  have n: "truthy (Some ''p2'') \<and> fp_id demo_project \<noteq> the (Some ''p2'')"
    by (simp add: truthy_def demo_project_def)
  note i = belongs_to_ignored [of demo_env kvs_api "''tid1''" "Some ''p2''" "''v3.0''"
      "[(''tid1'', demo_record ''tid1'')]"]
  from i g t n have "verify_token kvs_api ''tid1'' (Some ''p2'') [(''tid1'', demo_record ''tid1'')]
       = Inl AssertionError" by blast
  with i demo_validate demo_check show ?thesis by simp
qed

section \<open>Assembly of the payload\<close>

text \<open>
  Claim C1, as the code has it. Under an active trust whose project is set, when
  the steps before the role step have gone through and the roles of the trustor on the
  project of the trust have been read: if a delegated role of the trust has no role of
  the trustor with its id, the assembly fails with Forbidden, "Trustee have no delegated
  roles."; if every delegated role has one and the trust delegates at least one role,
  the role step stores, for each delegated role in order, the first role of the trustor
  with that id, and a payload that comes out of the assembly carries exactly these roles.
\<close>

theorem delegated_roles_matched:
  assumes "trust_enabled env"
    and "user_id = t_trustee_user_id t"
    and "populate_scope env (initial_token_data ms ex None) domain_id project_id = Inr td1"
    and "populate_user env td1 user_id domain_id project_id (Some t) = Inr td2"
    and "truthy (t_project_id t)"
    and "get_roles_for_user env (t_trustor_user_id t) None (t_project_id t) = Inr roles"
  shows "((\<exists>tr\<in>set (t_roles t). \<forall>x\<in>set roles. r_id x \<noteq> tr_id tr) \<longrightarrow>
            get_token_data env user_id ms ex domain_id project_id expires (Some t) None
              = Inl (Forbidden ''Trustee have no delegated roles.''))
       \<and> ((\<forall>tr\<in>set (t_roles t). \<exists>x\<in>set roles. r_id x = tr_id tr) \<and> t_roles t \<noteq> [] \<longrightarrow>
            (\<exists>rs. map Some rs = map (\<lambda>tr. List.find (\<lambda>x. r_id x = tr_id tr) roles) (t_roles t)
               \<and> populate_roles env td2 user_id domain_id project_id (Some t)
                   = Inr (td2\<lparr>tok_roles := Some rs\<rparr>)
               \<and> (\<forall>body. get_token_data env user_id ms ex domain_id project_id expires
                             (Some t) None = Inr body
                     \<longrightarrow> (\<exists>td. body_token body = Some td \<and> tok_roles td = Some rs))))"
proof (intro conjI impI)
  from assms(3) have "tok_roles td1 = None"
    by (auto dest: populate_scope_frame simp: initial_token_data_None)
  with assms(4) have r: "tok_roles td2 = None"
    by (auto dest: populate_user_frame)
  have a: "trust_active env (Some t)"
    using assms(1) by (simp add: trust_active_def)
  have pre: "get_token_data env user_id ms ex domain_id project_id expires (Some t) None
      = (case populate_roles env td2 user_id domain_id project_id (Some t) of
           Inl e \<Rightarrow> Inl e
         | Inr td3 \<Rightarrow>
            (case populate_service_catalog env td3 user_id domain_id project_id (Some t) of
               Inl e \<Rightarrow> Inl e
             | Inr td4 \<Rightarrow> Inr \<lparr>body_token = Some (populate_token_dates env td4 expires),
                               body_access = None\<rparr>))"
    using a assms(3,4) unfolding assms(2) by (simp add: get_token_data_def)
  have pr: "populate_roles env td2 user_id domain_id project_id (Some t)
      = (case match_trust_roles roles (t_roles t) [] of
           Inl e \<Rightarrow> Inl e
         | Inr filtered_roles \<Rightarrow>
             if filtered_roles = []
             then Inl (Unauthorized (no_access_msg user_id None (t_project_id t)))
             else Inr (td2\<lparr>tok_roles := Some filtered_roles\<rparr>))"
    using r a assms(5,6)
    by (simp add: populate_roles_def token_domain_id_def token_project_id_def
        token_user_id_def filter_roles_def cong: sum.case_cong if_cong)
  {
    assume "\<exists>tr\<in>set (t_roles t). \<forall>x\<in>set roles. r_id x \<noteq> tr_id tr"
    then have "match_trust_roles roles (t_roles t) []
        = Inl (Forbidden ''Trustee have no delegated roles.'')"
      by (auto simp: match_trust_roles_eq)
    then show "get_token_data env user_id ms ex domain_id project_id expires (Some t) None
              = Inl (Forbidden ''Trustee have no delegated roles.'')"
      by (simp add: pre pr)
  }
  {
    assume h: "(\<forall>tr\<in>set (t_roles t). \<exists>x\<in>set roles. r_id x = tr_id tr) \<and> t_roles t \<noteq> []"
    let ?rs = "map (\<lambda>tr. hd (filter (\<lambda>x. r_id x = tr_id tr) roles)) (t_roles t)"
    from h have m: "match_trust_roles roles (t_roles t) [] = Inr ?rs"
      by (simp add: match_trust_roles_eq)
    from h have ne: "?rs \<noteq> []" by simp
    from h have f: "map Some ?rs
        = map (\<lambda>tr. List.find (\<lambda>x. r_id x = tr_id tr) roles) (t_roles t)"
      by (simp add: find_hd_filter)
    from m ne have p: "populate_roles env td2 user_id domain_id project_id (Some t)
        = Inr (td2\<lparr>tok_roles := Some ?rs\<rparr>)"
      by (simp add: pr)
    have g: "\<forall>body. get_token_data env user_id ms ex domain_id project_id expires
                             (Some t) None = Inr body
                     \<longrightarrow> (\<exists>td. body_token body = Some td \<and> tok_roles td = Some ?rs)"
      by (auto simp: pre p populate_token_dates_frame split: sum.splits
          dest: populate_service_catalog_frame)
    from f p g
    show "\<exists>rs. map Some rs = map (\<lambda>tr. List.find (\<lambda>x. r_id x = tr_id tr) roles) (t_roles t)
               \<and> populate_roles env td2 user_id domain_id project_id (Some t)
                   = Inr (td2\<lparr>tok_roles := Some rs\<rparr>)
               \<and> (\<forall>body. get_token_data env user_id ms ex domain_id project_id expires
                             (Some t) None = Inr body
                     \<longrightarrow> (\<exists>td. body_token body = Some td \<and> tok_roles td = Some rs))"
      by blast
  }
qed

text \<open>On the small deployment: alice holds admin and member on p1; a trust that
  delegates admin and auditor is refused, a trust that delegates admin gives the payload
  the role admin alone, as the identity directory returns it.\<close>

theorem delegated_roles_matched_witness:
  "get_token_data demo_env ''bob'' [''password''] None None (Some ''p1'') None
      (Some (demo_trust [TrustRole ''admin'', TrustRole ''auditor''])) None
     = Inl (Forbidden ''Trustee have no delegated roles.'')
   \<and> (\<exists>td. get_token_data demo_env ''bob'' [''password''] None None (Some ''p1'') None
              (Some (demo_trust [TrustRole ''admin''])) None
            = Inr \<lparr>body_token = Some td, body_access = None\<rparr>
          \<and> tok_roles td
            = Some [\<lparr>r_id = ''admin'', r_name = ''Admin'',
                     r_extra = [(''description'', ''all'')]\<rparr>])"
proof -
  let ?roles = "[\<lparr>r_id = ''admin'', r_name = ''Admin'', r_extra = [(''description'', ''all'')]\<rparr>,
                 \<lparr>r_id = ''member'', r_name = ''Member'', r_extra = []\<rparr>]"
  have e: "trust_enabled demo_env" by (simp add: demo_env_def)
  have u: "''bob'' = t_trustee_user_id (demo_trust ds)" for ds
    by (simp add: demo_trust_def)
  have "\<exists>td1 td2. populate_scope demo_env (initial_token_data [''password''] None None) None
               (Some ''p1'') = Inr td1
           \<and> populate_user demo_env td1 ''bob'' None (Some ''p1'') (Some (demo_trust ds))
               = Inr td2" for ds
    by (simp add: demo_eval)
  then obtain td1 td2 where
    s: "\<And>ds. populate_scope demo_env (initial_token_data [''password''] None None) None
               (Some ''p1'') = Inr (td1 ds)"
    and p: "\<And>ds. populate_user demo_env (td1 ds) ''bob'' None (Some ''p1'')
               (Some (demo_trust ds)) = Inr (td2 ds)"
    by metis
  have y: "truthy (t_project_id (demo_trust ds))" for ds
    by (simp add: demo_trust_def truthy_def)
  have g: "get_roles_for_user demo_env (t_trustor_user_id (demo_trust ds)) None
             (t_project_id (demo_trust ds)) = Inr ?roles" for ds
    by (simp add: demo_eval)
  note th = delegated_roles_matched [OF e u s p y g]
  have "\<exists>tr\<in>set (t_roles (demo_trust [TrustRole ''admin'', TrustRole ''auditor''])).
          \<forall>x\<in>set ?roles. r_id x \<noteq> tr_id tr"
    by (simp add: demo_trust_def)
  with th [of "[TrustRole ''admin'', TrustRole ''auditor'']" None]
  have 1: "get_token_data demo_env ''bob'' [''password''] None None (Some ''p1'') None
      (Some (demo_trust [TrustRole ''admin'', TrustRole ''auditor''])) None
     = Inl (Forbidden ''Trustee have no delegated roles.'')"
    by blast
  have "(\<forall>tr\<in>set (t_roles (demo_trust [TrustRole ''admin''])).
           \<exists>x\<in>set ?roles. r_id x = tr_id tr)
        \<and> t_roles (demo_trust [TrustRole ''admin'']) \<noteq> []"
    by (simp add: demo_trust_def)
  with th [of "[TrustRole ''admin'']" None]
  obtain rs where
    m: "map Some rs = map (\<lambda>tr. List.find (\<lambda>x. r_id x = tr_id tr) ?roles)
                        (t_roles (demo_trust [TrustRole ''admin'']))"
    and b: "\<forall>body. get_token_data demo_env ''bob'' [''password''] None None (Some ''p1'') None
                      (Some (demo_trust [TrustRole ''admin''])) None = Inr body
              \<longrightarrow> (\<exists>td. body_token body = Some td \<and> tok_roles td = Some rs)"
    by blast
  from m have rs: "rs = [\<lparr>r_id = ''admin'', r_name = ''Admin'',
                     r_extra = [(''description'', ''all'')]\<rparr>]"
    by (auto simp: demo_trust_def)
  have "\<exists>td. get_token_data demo_env ''bob'' [''password''] None None (Some ''p1'') None
              (Some (demo_trust [TrustRole ''admin''])) None
            = Inr \<lparr>body_token = Some td, body_access = None\<rparr>"
    by (simp add: get_token_data_def demo_eval)
  with b rs have 2: "\<exists>td. get_token_data demo_env ''bob'' [''password''] None None (Some ''p1'')
              None (Some (demo_trust [TrustRole ''admin''])) None
            = Inr \<lparr>body_token = Some td, body_access = None\<rparr>
          \<and> tok_roles td
            = Some [\<lparr>r_id = ''admin'', r_name = ''Admin'',
                     r_extra = [(''description'', ''all'')]\<rparr>]"
    by fastforce
  from 1 2 show ?thesis by blast
qed

text \<open>
  Claim C1 as it is written fails for a trust that delegates no role: every delegated
  role is matched, none being there, and the assembly does not return a payload with
  these roles; the list being empty, it fails with Unauthorized.
\<close>

theorem empty_delegation_counterexample:
  "t_roles (demo_trust []) = []
   \<and> get_token_data demo_env ''bob'' [''password''] None None (Some ''p1'') None
        (Some (demo_trust [])) None
      = Inl (Unauthorized ''User bob have no access to project p1'')"
  by (simp add: get_token_data_def demo_eval no_access_msg_def)

text \<open>
  Claim C5, as the code has it. Under an active trust, when the prior token carries no
  user, the trustor is looked up, and a disabled trustor fails the assembly with
  Forbidden, "Trustor is disabled.", whatever else the prior token carries (roles,
  catalog, scope, or a trust block, which is never copied from it). The premises say
  that the caller is the trustee and that the scope step and the lookup of the caller
  have gone through.
\<close>

theorem trustor_disabled_forbidden:
  assumes "trust_enabled env"
    and "user_id = t_trustee_user_id t"
    and "case token of None \<Rightarrow> True | Some prior \<Rightarrow> tok_user prior = None"
    and "populate_scope env (initial_token_data ms ex token) domain_id project_id = Inr td1"
    and "get_user env user_id = Inr u"
    and "get_user env (t_trustor_user_id t) = Inr trustor"
    and "\<not> u_enabled trustor"
  shows "get_token_data env user_id ms ex domain_id project_id expires (Some t) token
           = Inl (Forbidden ''Trustor is disabled.'')"
proof -
  have a: "trust_active env (Some t)"
    using assms(1) by (simp add: trust_active_def)
  from assms(3) have "tok_user (initial_token_data ms ex token) = None"
    by (simp add: initial_token_data_def split: option.splits)
  with assms(4) have n: "tok_user td1 = None" "tok_trust td1 = None"
    by (auto dest: populate_scope_frame simp: initial_token_data_None)
  from n a assms(5,6,7)
  have "populate_user env td1 user_id domain_id project_id (Some t)
          = Inl (Forbidden ''Trustor is disabled.'')"
    by (simp add: populate_user_def)
  with a assms(2,4) show ?thesis
    by (simp add: get_token_data_def)
qed

text \<open>On the small deployment: bob under the trust of carol, who is disabled, without
  a prior token and with a prior token that carries roles and a catalog.\<close>

theorem trustor_disabled_forbidden_witness:
  "get_user demo_env (t_trustor_user_id carol_trust)
     = Inr \<lparr>u_id = ''carol'', u_name = ''Carol'', u_domain_id = ''default'', u_enabled = False\<rparr>
   \<and> get_token_data demo_env ''bob'' [''token''] None None None None (Some carol_trust) None
     = Inl (Forbidden ''Trustor is disabled.'')
   \<and> get_token_data demo_env ''bob'' [''token''] None None None None (Some carol_trust)
       (Some prior_roles)
     = Inl (Forbidden ''Trustor is disabled.'')"
proof -
  have e: "trust_enabled demo_env" by (simp add: demo_env_def)
  have u: "''bob'' = t_trustee_user_id carol_trust" by (simp add: carol_trust_def)
  have n: "case None :: token_data option of None \<Rightarrow> True | Some prior \<Rightarrow> tok_user prior = None"
    "case Some prior_roles of None \<Rightarrow> True | Some prior \<Rightarrow> tok_user prior = None"
    by (simp_all add: prior_roles_def)
  have s: "populate_scope demo_env (initial_token_data [''token''] None tok) None None
             = Inr (initial_token_data [''token''] None tok)" for tok
    by (simp add: populate_scope_def truthy_def)
  have b: "get_user demo_env ''bob''
     = Inr \<lparr>u_id = ''bob'', u_name = ''Bob'', u_domain_id = ''default'', u_enabled = True\<rparr>"
    by (simp add: demo_env_def demo_get_user_def)
  have c: "get_user demo_env (t_trustor_user_id carol_trust)
     = Inr \<lparr>u_id = ''carol'', u_name = ''Carol'', u_domain_id = ''default'', u_enabled = False\<rparr>"
    by (simp add: demo_env_def demo_get_user_def carol_trust_def)
  have d: "\<not> u_enabled \<lparr>u_id = ''carol'', u_name = ''Carol'', u_domain_id = ''default'',
                          u_enabled = False\<rparr>"
    by simp
  from trustor_disabled_forbidden [OF e u n(1) s b c d]
    trustor_disabled_forbidden [OF e u n(2) s b c d] c
  show ?thesis by simp
qed

text \<open>
  Claim C5 as it is written fails when the prior token carries a user: the user step
  returns at once, the trustor is never looked up, and the assembly of bob's token under
  the trust of the disabled carol succeeds, without a trust block.
\<close>

theorem prior_user_skips_trustor_counterexample:
  "get_user demo_env (t_trustor_user_id carol_trust)
     = Inr \<lparr>u_id = ''carol'', u_name = ''Carol'', u_domain_id = ''default'', u_enabled = False\<rparr>
   \<and> tok_trust prior_user = None
   \<and> get_token_data demo_env ''bob'' [''token''] None None None None (Some carol_trust)
       (Some prior_user)
     = Inr \<lparr>body_token = Some
             \<lparr>tok_methods = [''token''], tok_extras = None, tok_domain = None,
              tok_project = None,
              tok_user = Some \<lparr>fu_id = ''bob'', fu_name = ''Bob'',
                         fu_domain = \<lparr>fd_id = ''default'', fd_name = ''Default''\<rparr>\<rparr>,
              tok_roles = None, tok_catalog = None, tok_trust = None,
              tok_expires_at = Some ''1970-01-02T00:00:00.000000Z'',
              tok_issued_at = Some ''1970-01-01T00:00:00.000000Z''\<rparr>,
            body_access = None\<rparr>"
  by (simp add: get_token_data_def demo_eval carol_trust_def prior_user_def)

text \<open>
  Claim C6, as the code has it. The user, role and catalog steps return the token data
  as they got it when their field is present, and the scope step does so when a domain
  or a project is present, so that a missing one of the two is not added. The date step
  has no such test: it always writes \<^verbatim>\<open>expires_at\<close> (from the expiry given, or from the
  default) and \<^verbatim>\<open>issued_at\<close> (now). A payload assembled over a prior token carries the
  scope, user, roles and catalog that the prior token supplied.
\<close>

theorem present_fields_kept:
  "(tok_domain td \<noteq> None \<or> tok_project td \<noteq> None
       \<longrightarrow> populate_scope env td domain_id project_id = Inr td)
   \<and> (tok_user td \<noteq> None
       \<longrightarrow> populate_user env td user_id domain_id project_id trust = Inr td)
   \<and> (tok_roles td \<noteq> None
       \<longrightarrow> populate_roles env td user_id domain_id project_id trust = Inr td)
   \<and> (tok_catalog td \<noteq> None
       \<longrightarrow> populate_service_catalog env td user_id domain_id project_id trust = Inr td)
   \<and> tok_expires_at (populate_token_dates env td expires)
       = Some (if expires_given expires
               then (case the expires of ExpString x \<Rightarrow> x | ExpTime n \<Rightarrow> isotime env n)
               else isotime env (default_expire_time env))
   \<and> tok_issued_at (populate_token_dates env td expires) = Some (isotime env (utcnow env))
   \<and> (\<forall>body. get_token_data env user_id ms ex domain_id project_id expires trust (Some prior)
                = Inr body
         \<longrightarrow> (\<exists>out. body_token body = Some out
                \<and> (tok_domain prior \<noteq> None \<or> tok_project prior \<noteq> None
                     \<longrightarrow> tok_domain out = tok_domain prior \<and> tok_project out = tok_project prior)
                \<and> (tok_user prior \<noteq> None \<longrightarrow> tok_user out = tok_user prior)
                \<and> (tok_roles prior \<noteq> None \<longrightarrow> tok_roles out = tok_roles prior)
                \<and> (tok_catalog prior \<noteq> None \<longrightarrow> tok_catalog out = tok_catalog prior)))"
proof (intro conjI allI impI)
  show "tok_expires_at (populate_token_dates env td expires)
       = Some (if expires_given expires
               then (case the expires of ExpString x \<Rightarrow> x | ExpTime n \<Rightarrow> isotime env n)
               else isotime env (default_expire_time env))"
    by (simp add: populate_token_dates_def Let_def)
next
  show "tok_issued_at (populate_token_dates env td expires) = Some (isotime env (utcnow env))"
    by (simp add: populate_token_dates_def Let_def)
next
  fix body
  assume "get_token_data env user_id ms ex domain_id project_id expires trust (Some prior)
            = Inr body"
  from get_token_data_Some [OF this] obtain td1 td2 td3 td4 where
    s: "populate_scope env (initial_token_data ms ex (Some prior)) domain_id project_id = Inr td1"
    and u: "populate_user env td1 user_id domain_id project_id trust = Inr td2"
    and r: "populate_roles env td2 user_id domain_id project_id trust = Inr td3"
    and c: "populate_service_catalog env td3 user_id domain_id project_id trust = Inr td4"
    and b: "body = \<lparr>body_token = Some (populate_token_dates env td4 expires), body_access = None\<rparr>"
    by blast
  let ?i = "initial_token_data ms ex (Some prior)"
  have i: "tok_domain ?i = tok_domain prior" "tok_project ?i = tok_project prior"
    "tok_user ?i = tok_user prior" "tok_roles ?i = tok_roles prior"
    "tok_catalog ?i = tok_catalog prior"
    by (simp_all add: initial_token_data_def)
  have d: "tok_domain prior \<noteq> None \<or> tok_project prior \<noteq> None
             \<Longrightarrow> tok_domain td1 = tok_domain prior \<and> tok_project td1 = tok_project prior"
    using s i by (auto simp: populate_scope_def)
  have f1: "tok_user td1 = tok_user prior" "tok_roles td1 = tok_roles prior"
    "tok_catalog td1 = tok_catalog prior"
    using populate_scope_frame [OF s] i by simp_all
  have u2: "tok_user prior \<noteq> None \<Longrightarrow> tok_user td2 = tok_user prior"
    using u f1 by (auto simp: populate_user_def)
  have f2: "tok_roles td2 = tok_roles prior" "tok_catalog td2 = tok_catalog prior"
    "tok_domain td2 = tok_domain td1" "tok_project td2 = tok_project td1"
    using populate_user_frame [OF u] f1 by simp_all
  have r3: "tok_roles prior \<noteq> None \<Longrightarrow> tok_roles td3 = tok_roles prior"
    using r f2 by (auto simp: populate_roles_def)
  have f3: "tok_catalog td3 = tok_catalog prior" "tok_user td3 = tok_user td2"
    "tok_domain td3 = tok_domain td1" "tok_project td3 = tok_project td1"
    using populate_roles_frame [OF r] f2 by simp_all
  have c4: "tok_catalog prior \<noteq> None \<Longrightarrow> tok_catalog td4 = tok_catalog prior"
    using c f3 by (auto simp: populate_service_catalog_def)
  have f4: "tok_roles td4 = tok_roles td3" "tok_user td4 = tok_user td2"
    "tok_domain td4 = tok_domain td1" "tok_project td4 = tok_project td1"
    using populate_service_catalog_frame [OF c] f3 by simp_all
  show "\<exists>out. body_token body = Some out
                \<and> (tok_domain prior \<noteq> None \<or> tok_project prior \<noteq> None
                     \<longrightarrow> tok_domain out = tok_domain prior \<and> tok_project out = tok_project prior)
                \<and> (tok_user prior \<noteq> None \<longrightarrow> tok_user out = tok_user prior)
                \<and> (tok_roles prior \<noteq> None \<longrightarrow> tok_roles out = tok_roles prior)
                \<and> (tok_catalog prior \<noteq> None \<longrightarrow> tok_catalog out = tok_catalog prior)"
    using b d u2 r3 c4 f4 by (simp add: populate_token_dates_frame)
qed (simp_all add: populate_scope_def populate_user_def populate_roles_def
    populate_service_catalog_def)

text \<open>On the small deployment: every step leaves a complete prior token alone, and
  a token assembled for alice on p1 over a prior token with the role member and an empty
  catalog keeps both.\<close>

theorem present_fields_kept_witness:
  "populate_scope demo_env stale_token (Some ''default'') (Some ''p2'') = Inr stale_token
   \<and> populate_user demo_env stale_token ''nobody'' None None None = Inr stale_token
   \<and> populate_roles demo_env stale_token ''bob'' None (Some ''p1'') None = Inr stale_token
   \<and> populate_service_catalog demo_env stale_token ''bob'' None (Some ''p1'') None
       = Inr stale_token
   \<and> (\<exists>out. get_token_data demo_env ''alice'' [''password''] None None (Some ''p1'') None None
                (Some prior_roles)
              = Inr \<lparr>body_token = Some out, body_access = None\<rparr>
            \<and> tok_roles out = Some [\<lparr>r_id = ''member'', r_name = ''Member'', r_extra = []\<rparr>]
            \<and> tok_catalog out = Some [])"
proof -
  have p: "tok_domain stale_token \<noteq> None \<or> tok_project stale_token \<noteq> None"
    "tok_user stale_token \<noteq> None" "tok_roles stale_token \<noteq> None"
    "tok_catalog stale_token \<noteq> None"
    by (simp_all add: stale_token_def demo_payload_def)
  have q: "tok_roles prior_roles = Some [\<lparr>r_id = ''member'', r_name = ''Member'', r_extra = []\<rparr>]"
    "tok_catalog prior_roles = Some []"
    by (simp_all add: prior_roles_def)
  have "\<exists>out. get_token_data demo_env ''alice'' [''password''] None None (Some ''p1'') None None
                (Some prior_roles)
              = Inr \<lparr>body_token = Some out, body_access = None\<rparr>"
    by (simp add: get_token_data_def demo_eval prior_roles_def)
  then obtain out0 where g: "get_token_data demo_env ''alice'' [''password''] None None
      (Some ''p1'') None None (Some prior_roles)
      = Inr \<lparr>body_token = Some out0, body_access = None\<rparr>"
    by blast
  from present_fields_kept [where env = demo_env and user_id = "''alice''"
      and ms = "[''password'']" and ex = None and domain_id = None
      and project_id = "Some ''p1''" and expires = None and trust = None
      and prior = prior_roles] g q
  have 5: "tok_roles out0 = Some [\<lparr>r_id = ''member'', r_name = ''Member'', r_extra = []\<rparr>]
      \<and> tok_catalog out0 = Some []"
    by fastforce
  from present_fields_kept [where td = stale_token and env = demo_env
      and domain_id = "Some ''default''" and project_id = "Some ''p2''"] p
  have 1: "populate_scope demo_env stale_token (Some ''default'') (Some ''p2'') = Inr stale_token"
    by blast
  from present_fields_kept [where td = stale_token and env = demo_env
      and user_id = "''nobody''" and domain_id = None and project_id = None and trust = None] p
  have 2: "populate_user demo_env stale_token ''nobody'' None None None = Inr stale_token"
    by blast
  from present_fields_kept [where td = stale_token and env = demo_env
      and user_id = "''bob''" and domain_id = None and project_id = "Some ''p1''"
      and trust = None] p
  have 3: "populate_roles demo_env stale_token ''bob'' None (Some ''p1'') None = Inr stale_token"
    and 4: "populate_service_catalog demo_env stale_token ''bob'' None (Some ''p1'') None
       = Inr stale_token"
    by blast+
  from 1 2 3 4 5 g show ?thesis by blast
qed

text \<open>
  Claim C6 as it is written fails twice: with a domain present the scope step does not
  add the project asked for, and the date step replaces the dates a token carries (and
  \<^verbatim>\<open>get_token_data\<close> never copies them from the prior token).
\<close>

theorem scope_and_dates_counterexample:
  "tok_domain prior_domain = Some \<lparr>fd_id = ''default'', fd_name = ''Default''\<rparr>
   \<and> tok_project prior_domain = None
   \<and> populate_scope demo_env prior_domain None (Some ''p1'') = Inr prior_domain
   \<and> tok_issued_at stale_token = Some ''2013-05-01T00:00:00.000000Z''
   \<and> tok_expires_at stale_token = Some ''2013-05-02T00:00:00.000000Z''
   \<and> tok_issued_at (populate_token_dates demo_env stale_token None)
       = Some ''1970-01-01T00:00:00.000000Z''
   \<and> tok_expires_at (populate_token_dates demo_env stale_token None)
       = Some ''1970-01-02T00:00:00.000000Z''
   \<and> get_token_data demo_env ''alice'' [''password''] None None (Some ''p1'') None None
        (Some stale_token) = Inr demo_body"
  by (simp add: get_token_data_def demo_eval prior_domain_def stale_token_def demo_payload_def
      demo_body_def)

text \<open>
  Claim C9, as the code has it. Without a domain and without a project scope the catalog
  step does nothing; if the prior token carries no catalog either, the payload has no
  catalog field at all (not an empty mapping). With a scope, a payload that comes out
  of the assembly has a catalog field.
\<close>

theorem no_scope_no_catalog:
  "(\<not> truthy domain_id \<and> \<not> truthy project_id
       \<longrightarrow> populate_service_catalog env td user_id domain_id project_id trust = Inr td)
   \<and> (\<forall>body. \<not> truthy domain_id \<and> \<not> truthy project_id
          \<and> (case token of None \<Rightarrow> True | Some prior \<Rightarrow> tok_catalog prior = None)
          \<and> get_token_data env user_id ms ex domain_id project_id expires trust token = Inr body
        \<longrightarrow> (\<exists>out. body_token body = Some out \<and> tok_catalog out = None))
   \<and> (\<forall>body. (truthy domain_id \<or> truthy project_id)
          \<and> get_token_data env user_id ms ex domain_id project_id expires trust token = Inr body
        \<longrightarrow> (\<exists>out. body_token body = Some out \<and> tok_catalog out \<noteq> None))"
proof (intro conjI allI impI)
  assume "\<not> truthy domain_id \<and> \<not> truthy project_id"
  then show "populate_service_catalog env td user_id domain_id project_id trust = Inr td"
    by (simp add: populate_service_catalog_def)
next
  fix body
  assume a: "\<not> truthy domain_id \<and> \<not> truthy project_id
          \<and> (case token of None \<Rightarrow> True | Some prior \<Rightarrow> tok_catalog prior = None)
          \<and> get_token_data env user_id ms ex domain_id project_id expires trust token = Inr body"
  then have g: "get_token_data env user_id ms ex domain_id project_id expires trust token
      = Inr body" by simp
  from get_token_data_Some [OF g] obtain td1 td2 td3 td4 where
    s: "populate_scope env (initial_token_data ms ex token) domain_id project_id = Inr td1"
    and u: "populate_user env td1 user_id domain_id project_id trust = Inr td2"
    and r: "populate_roles env td2 user_id domain_id project_id trust = Inr td3"
    and c: "populate_service_catalog env td3 user_id domain_id project_id trust = Inr td4"
    and b: "body = \<lparr>body_token = Some (populate_token_dates env td4 expires), body_access = None\<rparr>"
    by blast
  from a have "tok_catalog (initial_token_data ms ex token) = None"
    by (simp add: initial_token_data_def split: option.splits)
  with populate_scope_frame [OF s] populate_user_frame [OF u] populate_roles_frame [OF r]
  have "tok_catalog td3 = None" by simp
  with c a have "tok_catalog td4 = None"
    by (simp add: populate_service_catalog_def)
  with b show "\<exists>out. body_token body = Some out \<and> tok_catalog out = None"
    by (simp add: populate_token_dates_frame)
next
  fix body
  assume a: "(truthy domain_id \<or> truthy project_id)
          \<and> get_token_data env user_id ms ex domain_id project_id expires trust token = Inr body"
  then have g: "get_token_data env user_id ms ex domain_id project_id expires trust token
      = Inr body" by simp
  from get_token_data_Some [OF g] obtain td3 td4 where
    c: "populate_service_catalog env td3 user_id domain_id project_id trust = Inr td4"
    and b: "body = \<lparr>body_token = Some (populate_token_dates env td4 expires), body_access = None\<rparr>"
    by blast
  from c a have "tok_catalog td4 \<noteq> None"
    by (auto simp: populate_service_catalog_def Let_def split: if_splits sum.splits)
  with b show "\<exists>out. body_token body = Some out \<and> tok_catalog out \<noteq> None"
    by (simp add: populate_token_dates_frame)
qed

text \<open>On the small deployment: alice's unscoped token has no catalog, her token for
  p1 has one.\<close>

theorem no_scope_no_catalog_witness:
  "populate_service_catalog demo_env prior_user ''bob'' None None None = Inr prior_user
   \<and> (\<exists>out. get_token_data demo_env ''alice'' [''password''] None None None None None None
             = Inr \<lparr>body_token = Some out, body_access = None\<rparr>
          \<and> tok_catalog out = None)
   \<and> (\<exists>out. get_token_data demo_env ''alice'' [''password''] None None (Some ''p1'') None None
               None
             = Inr \<lparr>body_token = Some out, body_access = None\<rparr>
          \<and> tok_catalog out \<noteq> None)"
proof -
  have "\<exists>out. get_token_data demo_env ''alice'' [''password''] None None None None None None
             = Inr \<lparr>body_token = Some out, body_access = None\<rparr>"
    by (simp add: get_token_data_def demo_eval)
  then obtain o1 where 1: "get_token_data demo_env ''alice'' [''password''] None None None None
      None None = Inr \<lparr>body_token = Some o1, body_access = None\<rparr>"
    by blast
  have "\<exists>out. get_token_data demo_env ''alice'' [''password''] None None (Some ''p1'') None None
      None = Inr \<lparr>body_token = Some out, body_access = None\<rparr>"
    by (simp add: get_token_data_def demo_eval)
  then obtain o2 where 2: "get_token_data demo_env ''alice'' [''password''] None None
      (Some ''p1'') None None None = Inr \<lparr>body_token = Some o2, body_access = None\<rparr>"
    by blast
  have t: "\<not> truthy None" "truthy (Some ''p1'')"
    "case None :: token_data option of None \<Rightarrow> True | Some prior \<Rightarrow> tok_catalog prior = None"
    by (simp_all add: truthy_def)
  from no_scope_no_catalog [where env = demo_env and user_id = "''alice''"
      and ms = "[''password'']" and ex = None and domain_id = None and project_id = None
      and expires = None and trust = None and token = None] 1 t
  have 3: "tok_catalog o1 = None" by fastforce
  from no_scope_no_catalog [where env = demo_env and user_id = "''alice''"
      and ms = "[''password'']" and ex = None and domain_id = None
      and project_id = "Some ''p1''" and expires = None and trust = None and token = None] 2 t
  have 4: "tok_catalog o2 \<noteq> None" by fastforce
  from no_scope_no_catalog [where env = demo_env and td = prior_user and user_id = "''bob''"
      and domain_id = None and project_id = None and trust = None] t
  have 5: "populate_service_catalog demo_env prior_user ''bob'' None None None = Inr prior_user"
    by blast
  from 1 2 3 4 5 show ?thesis by blast
qed

text \<open>
  Claim C9 as it is written fails on alice's unscoped token: its catalog field is
  missing, where the claim has an empty mapping.
\<close>

theorem unscoped_catalog_counterexample:
  "get_token_data demo_env ''alice'' [''password''] None None None None None None
     = Inr \<lparr>body_token = Some
             \<lparr>tok_methods = [''password''], tok_extras = None, tok_domain = None,
              tok_project = None,
              tok_user = Some \<lparr>fu_id = ''alice'', fu_name = ''Alice'',
                         fu_domain = \<lparr>fd_id = ''default'', fd_name = ''Default''\<rparr>\<rparr>,
              tok_roles = None, tok_catalog = None, tok_trust = None,
              tok_expires_at = Some ''1970-01-02T00:00:00.000000Z'',
              tok_issued_at = Some ''1970-01-01T00:00:00.000000Z''\<rparr>,
            body_access = None\<rparr>"
  by (simp add: get_token_data_def demo_eval)

end
